theory Spec2Isabelle
  imports Complex_Main "HOL-Library.Word"
begin

section \<open>Python values, objects and the store\<close>

text \<open>
  The module \<^verbatim>\<open>structures/fields.py\<close> declares field kinds by naming a coercion function:
  \<^verbatim>\<open>int\<close>, \<^verbatim>\<open>float\<close>, \<^verbatim>\<open>decimal.Decimal\<close>, \<^verbatim>\<open>bool\<close>, \<^verbatim>\<open>bytes\<close>, \<^verbatim>\<open>list\<close>, \<^verbatim>\<open>tuple\<close>,
  \<^verbatim>\<open>set\<close>, \<^verbatim>\<open>frozenset\<close>, \<^verbatim>\<open>dict\<close> and its own \<^verbatim>\<open>String.func\<close>. The values these functions
  work on are modelled here. Text is a \<^typ>\<open>string\<close> whose characters stand for code
  points below 256; bytes are 8-bit words. A float is either a finite dyadic number
  \<open>m * 2^e\<close>, an infinity or a NaN; a decimal is either a finite number \<open>c * 10^e\<close> with a
  sign, an infinity, a quiet NaN or a signaling NaN. A NaN carries a tag that tells one
  NaN object from another, since a NaN equals nothing but is the same object as itself.
  Mutable containers (list, set, dict) live in the store and are referred to by
  address, so that aliasing is visible. Immutable containers (tuple, frozenset) carry
  their elements and an identity tag: two of them are the same object exactly when the
  tags agree.
\<close>

type_synonym byte = "8 word"

datatype error =
    TypeError
  | ValueError
  | OverflowError
  | MemoryError
  | UnicodeDecodeError
  | LookupError
  | AttributeError
  | DanglingReference
  | OtherError string

datatype pyfloat = Finite int int | PosInf | NegInf | NaN nat

text \<open>
  \<open>DFinite sg c e\<close> is \<open>c * 10^e\<close>, negated when \<open>sg\<close> holds; \<open>DInfinity sg\<close> is the infinity
  of that sign.
\<close>

datatype pydecimal = DFinite bool nat int | DInfinity bool | DNaN nat | DSNaN nat

text \<open>
  Modelled from the spec: the sentinel \<^verbatim>\<open>NoDefault\<close>, which \<^verbatim>\<open>fields.py\<close> imports from
  \<^verbatim>\<open>structures/markers.py\<close>. It is the value \<open>VNoDefault\<close> below: a unique marker,
  distinct from every legitimate value, \<^verbatim>\<open>None\<close> included, that means no default was
  supplied. It is taken to be a plain object with no special methods of its own.
\<close>

datatype pyval =
    VNone
  | VNoDefault
  | VBool bool
  | VInt int
  | VFloat pyfloat
  | VDecimal pydecimal
  | VStr string
  | VBytes "byte list"
  | VRange int int int
  | VTuple nat "pyval list"
  | VFrozenSet nat "pyval list"
  | VRef nat

text \<open>
  The objects of the store. A set object holds its members in the order in which they
  were added; the order in which it yields them is another matter, see below.
\<close>

datatype pyobj =
    OList "pyval list"
  | OSet "pyval list"
  | ODict "(pyval \<times> pyval) list"

record store =
  heap :: "pyobj list"
  next_id :: nat

text \<open>
  An address is an index into the heap. Every reference a running interpreter holds
  points to an allocated object; a reference outside the heap is answered with
  \<^const>\<open>DanglingReference\<close> so that no result silently depends on it.
\<close>

definition lookup :: "store \<Rightarrow> nat \<Rightarrow> pyobj option" where
  "lookup s a = (if a < length (heap s) then Some (heap s ! a) else None)"

definition alloc :: "store \<Rightarrow> pyobj \<Rightarrow> nat \<times> store" where
  "alloc s ob = (length (heap s), s\<lparr>heap := heap s @ [ob]\<rparr>)"

definition fresh_id :: "store \<Rightarrow> nat \<times> store" where
  "fresh_id s = (next_id s, s\<lparr>next_id := Suc (next_id s)\<rparr>)"

text \<open>In-place mutation of the object at an address (append, add, item assignment, clear).\<close>

definition mutate :: "store \<Rightarrow> nat \<Rightarrow> pyobj \<Rightarrow> store" where
  "mutate s a ob = s\<lparr>heap := (heap s)[a := ob]\<rparr>"

subsection \<open>What the interpreter decides\<close>

text \<open>
  Eight things that the interpreter and the machine decide, not \<^verbatim>\<open>fields.py\<close>, are
  parameters of the model:

  \<^item> \<open>decode\<close>, the codec registry: \<^verbatim>\<open>str(b, enc)\<close> decodes the bytes \<open>b\<close> with the codec
    named \<open>enc\<close>, or raises;

  \<^item> \<open>to_str\<close>, the textual representation \<^verbatim>\<open>str(x)\<close> of a value that is neither text nor
    bytes to decode; it may raise (an integer with more digits than the digit limit
    allows raises \<^verbatim>\<open>ValueError\<close>);

  \<^item> \<open>to_float\<close>, the conversion \<^verbatim>\<open>float(x)\<close> of a value that is not a float, which parses
    and rounds;

  \<^item> \<open>to_decimal\<close>, the conversion \<^verbatim>\<open>decimal.Decimal(x)\<close> of a value that is not a decimal,
    which parses and may signal under the decimal context in force;

  \<^item> \<open>max_str_digits\<close>, the limit on the number of digits of an integer literal
    (\<^verbatim>\<open>sys.get_int_max_str_digits()\<close>, where 0 means no limit, as in interpreters that do
    not have the setting);

  \<^item> \<open>maxsize\<close>, the largest size an object can have (\<^verbatim>\<open>sys.maxsize\<close>);

  \<^item> \<open>no_room\<close>, whether the machine has no room for the \<open>n\<close> items that a number or a
    range stands for;

  \<^item> \<open>set_rank\<close>, the order in which a hash table yields its members: a set or frozenset
    whose members were added in the order \<open>xs\<close> yields them sorted by \<open>set_rank xs\<close>.
    The language fixes no order, and every order is the sorting by some rank.
\<close>

record pyenv =
  decode :: "string \<Rightarrow> byte list \<Rightarrow> error + string"
  to_str :: "store \<Rightarrow> pyval \<Rightarrow> error + string"
  to_float :: "store \<Rightarrow> pyval \<Rightarrow> error + pyfloat"
  to_decimal :: "store \<Rightarrow> pyval \<Rightarrow> error + pydecimal"
  max_str_digits :: nat
  maxsize :: int
  no_room :: "nat \<Rightarrow> bool"
  set_rank :: "pyval list \<Rightarrow> pyval \<Rightarrow> nat"

subsection \<open>Iteration\<close>

text \<open>
  The length and the items of \<^verbatim>\<open>range(a, b, c)\<close>. The interpreter builds no range with step
  0; for such a triple the functions below give the empty sequence.
\<close>

definition range_len :: "int \<Rightarrow> int \<Rightarrow> int \<Rightarrow> nat" where
  "range_len a b c =
     (if 0 < c \<and> a < b then nat ((b - a + c - 1) div c)
      else if c < 0 \<and> b < a then nat ((a - b - c - 1) div (- c))
      else 0)"

definition range_items :: "int \<Rightarrow> int \<Rightarrow> int \<Rightarrow> pyval list" where
  "range_items a b c = map (\<lambda>i. VInt (a + int i * c)) [0..<range_len a b c]"

text \<open>The members of a set or frozenset in the order in which it yields them.\<close>

definition iter_set :: "pyenv \<Rightarrow> pyval list \<Rightarrow> pyval list" where
  "iter_set env xs = sort_key (set_rank env xs) xs"

text \<open>
  The items that \<^verbatim>\<open>iter(x)\<close> yields, first to last. Text yields its characters as
  one-character strings, bytes yield integers, a range yields its items, a list and a
  tuple yield their elements in order, a dict yields its keys in insertion order, a set
  and a frozenset yield their members in the order of the hash table.
\<close>

definition py_iter :: "pyenv \<Rightarrow> store \<Rightarrow> pyval \<Rightarrow> error + pyval list" where
  "py_iter env s x =
     (case x of
        VStr t \<Rightarrow> Inr (map (\<lambda>c. VStr [c]) t)
      | VBytes bs \<Rightarrow> Inr (map (\<lambda>b. VInt (uint b)) bs)
      | VRange a b c \<Rightarrow> Inr (range_items a b c)
      | VTuple i xs \<Rightarrow> Inr xs
      | VFrozenSet i xs \<Rightarrow> Inr (iter_set env xs)
      | VRef a \<Rightarrow>
          (case lookup s a of
             None \<Rightarrow> Inl DanglingReference
           | Some (OList xs) \<Rightarrow> Inr xs
           | Some (OSet xs) \<Rightarrow> Inr (iter_set env xs)
           | Some (ODict kvs) \<Rightarrow> Inr (map fst kvs))
      | _ \<Rightarrow> Inl TypeError)"

text \<open>
  A range is the one iterable of the model whose items are not there until something
  collects them, and collecting them can fail. \<^verbatim>\<open>list\<close>, \<^verbatim>\<open>tuple\<close> and \<^verbatim>\<open>bytes\<close> ask the
  iterable for its length first, which raises \<^verbatim>\<open>OverflowError\<close> above \<^verbatim>\<open>sys.maxsize\<close>,
  and then make room; \<^verbatim>\<open>set\<close> and \<^verbatim>\<open>frozenset\<close> add item after item until there is no
  room left.
\<close>

definition hint_error :: "pyenv \<Rightarrow> pyval \<Rightarrow> error option" where
  "hint_error env x =
     (case x of
        VRange a b c \<Rightarrow>
          (if maxsize env < int (range_len a b c) then Some OverflowError
           else if no_room env (range_len a b c) then Some MemoryError
           else None)
      | _ \<Rightarrow> None)"

definition room_error :: "pyenv \<Rightarrow> pyval \<Rightarrow> error option" where
  "room_error env x =
     (case x of
        VRange a b c \<Rightarrow>
          (if maxsize env < int (range_len a b c) \<or> no_room env (range_len a b c)
           then Some MemoryError else None)
      | _ \<Rightarrow> None)"

text \<open>The items of \<open>x\<close> collected into a sequence, as \<^verbatim>\<open>list(x)\<close> collects them.\<close>

definition py_items :: "pyenv \<Rightarrow> store \<Rightarrow> pyval \<Rightarrow> error + pyval list" where
  "py_items env s x =
     (case hint_error env x of
        Some e \<Rightarrow> Inl e
      | None \<Rightarrow> py_iter env s x)"

subsection \<open>Hashing and key equality\<close>

text \<open>
  Lists, sets and dicts are unhashable, and so is a signaling NaN; a tuple is hashable
  when its elements are.
\<close>

fun hashable :: "pyval \<Rightarrow> bool" where
  "hashable (VTuple i xs) = list_all hashable xs"
| "hashable (VRef a) = False"
| "hashable (VDecimal d) = (case d of DSNaN i \<Rightarrow> False | _ \<Rightarrow> True)"
| "hashable x = True"

text \<open>The rational number a truth value, an integer, a finite float or decimal stands for.\<close>

definition as_rat :: "pyval \<Rightarrow> rat option" where
  "as_rat x =
     (case x of
        VBool b \<Rightarrow> Some (if b then 1 else 0)
      | VInt n \<Rightarrow> Some (of_int n)
      | VFloat f \<Rightarrow>
          (case f of
             Finite m e \<Rightarrow>
               Some (if 0 \<le> e then of_int (m * 2 ^ nat e) else of_int m / of_int (2 ^ nat (- e)))
           | _ \<Rightarrow> None)
      | VDecimal d \<Rightarrow>
          (case d of
             DFinite sg c e \<Rightarrow>
               Some ((if sg then - 1 else 1) *
                     (if 0 \<le> e then of_int (int c * 10 ^ nat e)
                      else of_int (int c) / of_int (10 ^ nat (- e))))
           | _ \<Rightarrow> None)
      | _ \<Rightarrow> None)"

text \<open>The sign of an infinity: whether it is the negative one.\<close>

definition as_infinity :: "pyval \<Rightarrow> bool option" where
  "as_infinity x =
     (case x of
        VFloat f \<Rightarrow> (case f of PosInf \<Rightarrow> Some False | NegInf \<Rightarrow> Some True | _ \<Rightarrow> None)
      | VDecimal d \<Rightarrow> (case d of DInfinity sg \<Rightarrow> Some sg | _ \<Rightarrow> None)
      | _ \<Rightarrow> None)"

text \<open>
  Whether \<^verbatim>\<open>x == y\<close> is true, on values that are not containers: numbers compare by value
  across \<^verbatim>\<open>bool\<close>, \<^verbatim>\<open>int\<close>, \<^verbatim>\<open>float\<close> and \<^verbatim>\<open>Decimal\<close>, ranges compare as sequences. A NaN
  equals nothing, itself included: the comparison is false, and with a signaling NaN it
  is false or raises, as the decimal context has it.
\<close>

definition atom_eq :: "pyval \<Rightarrow> pyval \<Rightarrow> bool" where
  "atom_eq x y =
     (case as_rat x of
        Some p \<Rightarrow> as_rat y = Some p
      | None \<Rightarrow>
          (case as_infinity x of
             Some sg \<Rightarrow> as_infinity y = Some sg
           | None \<Rightarrow>
               (case x of
                  VStr t \<Rightarrow> y = x
                | VBytes bs \<Rightarrow> y = x
                | VNone \<Rightarrow> y = x
                | VNoDefault \<Rightarrow> y = x
                | VRange a b c \<Rightarrow>
                    (case y of
                       VRange a' b' c' \<Rightarrow> range_items a b c = range_items a' b' c'
                     | _ \<Rightarrow> False)
                | _ \<Rightarrow> False)))"

text \<open>Whether \<open>x\<close> is a NaN and \<open>y\<close> is that very object.\<close>

definition same_nan :: "pyval \<Rightarrow> pyval \<Rightarrow> bool" where
  "same_nan x y =
     (case x of
        VFloat f \<Rightarrow> (case f of NaN i \<Rightarrow> y = x | _ \<Rightarrow> False)
      | VDecimal d \<Rightarrow> (case d of DNaN i \<Rightarrow> y = x | _ \<Rightarrow> False)
      | _ \<Rightarrow> False)"

text \<open>
  The comparison a set or dict applies to two hashable keys: the same object, or equal.
  Of two values that are equal it does not matter whether they are the same object;
  identity decides for a NaN, which is found again only as the same object, and it is
  modelled for tuples and frozensets.
\<close>

fun key_eq :: "pyval \<Rightarrow> pyval \<Rightarrow> bool"
  and key_eq_list :: "pyval list \<Rightarrow> pyval list \<Rightarrow> bool" where
  "key_eq (VTuple i xs) y = (case y of VTuple j ys \<Rightarrow> i = j \<or> key_eq_list xs ys | _ \<Rightarrow> False)"
| "key_eq (VFrozenSet i xs) y =
     (case y of
        VFrozenSet j ys \<Rightarrow>
          i = j \<or> (list_all (\<lambda>x. list_ex (\<lambda>y'. key_eq x y') ys) xs \<and> length xs = length ys)
      | _ \<Rightarrow> False)"
| "key_eq VNone y = atom_eq VNone y"
| "key_eq VNoDefault y = atom_eq VNoDefault y"
| "key_eq (VBool b) y = atom_eq (VBool b) y"
| "key_eq (VInt n) y = atom_eq (VInt n) y"
| "key_eq (VFloat f) y = (same_nan (VFloat f) y \<or> atom_eq (VFloat f) y)"
| "key_eq (VDecimal d) y = (same_nan (VDecimal d) y \<or> atom_eq (VDecimal d) y)"
| "key_eq (VStr t) y = atom_eq (VStr t) y"
| "key_eq (VBytes bs) y = atom_eq (VBytes bs) y"
| "key_eq (VRange a b c) y = atom_eq (VRange a b c) y"
| "key_eq (VRef a) y = (y = VRef a)"
| "key_eq_list [] ys = (ys = [])"
| "key_eq_list (x # xs) ys = (case ys of [] \<Rightarrow> False | y # ys' \<Rightarrow> key_eq x y \<and> key_eq_list xs ys')"

subsection \<open>Building sets and dicts\<close>

text \<open>\<^verbatim>\<open>s.add(x)\<close>: the element already present stays.\<close>

definition set_add :: "pyval list \<Rightarrow> pyval \<Rightarrow> pyval list" where
  "set_add acc x = (if list_ex (\<lambda>y. key_eq y x) acc then acc else acc @ [x])"

definition set_items :: "pyval list \<Rightarrow> pyval list" where
  "set_items xs = foldl set_add [] xs"

text \<open>\<^verbatim>\<open>d[k] = v\<close>: an equal key keeps its place and its key object, the value is replaced.\<close>

fun dict_set :: "(pyval \<times> pyval) list \<Rightarrow> pyval \<Rightarrow> pyval \<Rightarrow> (pyval \<times> pyval) list" where
  "dict_set [] k v = [(k, v)]"
| "dict_set (kv # kvs) k v =
     (if key_eq (fst kv) k then (fst kv, v) # kvs else kv # dict_set kvs k v)"

text \<open>
  \<^verbatim>\<open>dict(iterable)\<close> takes the elements one by one: each is collected into a sequence
  (which raises \<^verbatim>\<open>TypeError\<close> if it is not iterable) that must have length two (else
  \<^verbatim>\<open>ValueError\<close>) and a hashable first component (else \<^verbatim>\<open>TypeError\<close>).
\<close>

fun dict_update ::
  "pyenv \<Rightarrow> store \<Rightarrow> (pyval \<times> pyval) list \<Rightarrow> pyval list \<Rightarrow> error + (pyval \<times> pyval) list" where
  "dict_update env s d [] = Inr d"
| "dict_update env s d (item # items) =
     (case py_items env s item of
        Inl e \<Rightarrow> Inl e
      | Inr kv \<Rightarrow>
          (if length kv \<noteq> 2 then Inl ValueError
           else if \<not> hashable (kv ! 0) then Inl TypeError
           else dict_update env s (dict_set d (kv ! 0) (kv ! 1)) items))"

section \<open>The built-in coercion functions\<close>

text \<open>
  A coercion function takes the store and the value it is called with, and either raises
  or returns a value together with the store it leaves behind.
\<close>

type_synonym coercion = "store \<Rightarrow> pyval \<Rightarrow> error + pyval \<times> store"

subsection \<open>\<^verbatim>\<open>list\<close>, \<^verbatim>\<open>tuple\<close>, \<^verbatim>\<open>set\<close>, \<^verbatim>\<open>frozenset\<close>, \<^verbatim>\<open>dict\<close>\<close>

text \<open>\<^verbatim>\<open>list(x)\<close> always builds a new list object.\<close>

definition py_list :: "pyenv \<Rightarrow> coercion" where
  "py_list env s x =
     (case py_items env s x of
        Inl e \<Rightarrow> Inl e
      | Inr xs \<Rightarrow> (case alloc s (OList xs) of (a, s') \<Rightarrow> Inr (VRef a, s')))"

text \<open>
  \<^verbatim>\<open>tuple(x)\<close>: a tuple is returned unchanged, the very same object. Whether two tuples
  built from other iterables are the same object (the interpreter shares the empty
  tuple) is not relied upon anywhere below.
\<close>

definition py_tuple :: "pyenv \<Rightarrow> coercion" where
  "py_tuple env s x =
     (case x of
        VTuple i xs \<Rightarrow> Inr (VTuple i xs, s)
      | _ \<Rightarrow>
          (case py_items env s x of
             Inl e \<Rightarrow> Inl e
           | Inr xs \<Rightarrow> (case fresh_id s of (i, s') \<Rightarrow> Inr (VTuple i xs, s'))))"

text \<open>
  The members of a set or frozenset. \<^verbatim>\<open>set(x)\<close> and \<^verbatim>\<open>frozenset(x)\<close> take the members of
  a set or frozenset \<open>x\<close> over as they are, hash table to hash table, without iterating
  and without hashing or comparing anything anew.
\<close>

definition members :: "store \<Rightarrow> pyval \<Rightarrow> pyval list option" where
  "members s x =
     (case x of
        VFrozenSet i xs \<Rightarrow> Some xs
      | VRef a \<Rightarrow> (case lookup s a of Some (OSet xs) \<Rightarrow> Some xs | _ \<Rightarrow> None)
      | _ \<Rightarrow> None)"

text \<open>
  The members that adding the items of \<open>x\<close> one after the other to an empty set leaves;
  an unhashable item raises \<^verbatim>\<open>TypeError\<close>.
\<close>

definition collect_members :: "pyenv \<Rightarrow> store \<Rightarrow> pyval \<Rightarrow> error + pyval list" where
  "collect_members env s x =
     (case members s x of
        Some ys \<Rightarrow> Inr ys
      | None \<Rightarrow>
          (case py_iter env s x of
             Inl e \<Rightarrow> Inl e
           | Inr xs \<Rightarrow>
               (if \<not> list_all hashable xs then Inl TypeError
                else (case room_error env x of
                        Some e \<Rightarrow> Inl e
                      | None \<Rightarrow> Inr (set_items xs)))))"

text \<open>\<^verbatim>\<open>set(x)\<close> always builds a new set object.\<close>

definition py_set :: "pyenv \<Rightarrow> coercion" where
  "py_set env s x =
     (case collect_members env s x of
        Inl e \<Rightarrow> Inl e
      | Inr ys \<Rightarrow> (case alloc s (OSet ys) of (a, s') \<Rightarrow> Inr (VRef a, s')))"

text \<open>
  \<^verbatim>\<open>frozenset(x)\<close>: a frozenset is returned unchanged, the very same object, as CPython
  does.
\<close>

definition py_frozenset :: "pyenv \<Rightarrow> coercion" where
  "py_frozenset env s x =
     (case x of
        VFrozenSet i xs \<Rightarrow> Inr (VFrozenSet i xs, s)
      | _ \<Rightarrow>
          (case collect_members env s x of
             Inl e \<Rightarrow> Inl e
           | Inr ys \<Rightarrow> (case fresh_id s of (i, s') \<Rightarrow> Inr (VFrozenSet i ys, s'))))"

text \<open>
  \<^verbatim>\<open>dict(x)\<close> always builds a new dict object: a copy when \<open>x\<close> is a dict, otherwise from
  the key/value pairs that \<open>x\<close> yields, taken one at a time.
\<close>

definition is_dict :: "store \<Rightarrow> pyval \<Rightarrow> bool" where
  "is_dict s x =
     (case x of
        VRef a \<Rightarrow> (case lookup s a of Some (ODict kvs) \<Rightarrow> True | _ \<Rightarrow> False)
      | _ \<Rightarrow> False)"

definition dict_items :: "store \<Rightarrow> pyval \<Rightarrow> (pyval \<times> pyval) list" where
  "dict_items s x =
     (case x of
        VRef a \<Rightarrow> (case lookup s a of Some (ODict kvs) \<Rightarrow> kvs | _ \<Rightarrow> [])
      | _ \<Rightarrow> [])"

definition py_dict :: "pyenv \<Rightarrow> coercion" where
  "py_dict env s x =
     (if is_dict s x
      then (case alloc s (ODict (dict_items s x)) of (a, s') \<Rightarrow> Inr (VRef a, s'))
      else
        (case py_iter env s x of
           Inl e \<Rightarrow> Inl e
         | Inr items \<Rightarrow>
             (case dict_update env s [] items of
                Inl e \<Rightarrow> Inl e
              | Inr d \<Rightarrow> (case alloc s (ODict d) of (a, s') \<Rightarrow> Inr (VRef a, s')))))"

subsection \<open>\<^verbatim>\<open>int\<close>\<close>

text \<open>
  Whitespace that \<^verbatim>\<open>int\<close> strips from bytes (tab, line feed, vertical tab, form feed,
  carriage return, space) and from text (the same, and of the code points from 128 to
  255 the two that are whitespace, U+0085 and U+00A0).
\<close>

definition is_space :: "char \<Rightarrow> bool" where
  "is_space c =
     (let n = (of_char c :: nat)
      in (9 \<le> n \<and> n \<le> 13) \<or> n = 32 \<or> n = 133 \<or> n = 160)"

definition is_ascii_space :: "char \<Rightarrow> bool" where
  "is_ascii_space c = (let n = (of_char c :: nat) in (9 \<le> n \<and> n \<le> 13) \<or> n = 32)"

definition is_digit :: "char \<Rightarrow> bool" where
  "is_digit c = (let n = (of_char c :: nat) in 48 \<le> n \<and> n \<le> 57)"

definition digit_val :: "char \<Rightarrow> int" where
  "digit_val c = int (of_char c) - 48"

definition strip :: "(char \<Rightarrow> bool) \<Rightarrow> string \<Rightarrow> string" where
  "strip sp t = rev (dropWhile sp (rev (dropWhile sp t)))"

text \<open>
  Decimal digits with single underscores between them. The flag says whether the
  character just read was a digit: an underscore may only follow a digit, and the
  literal must end in one.
\<close>

fun parse_digits :: "bool \<Rightarrow> int \<Rightarrow> string \<Rightarrow> int option" where
  "parse_digits prev acc [] = (if prev then Some acc else None)"
| "parse_digits prev acc (c # cs) =
     (if is_digit c then parse_digits True (10 * acc + digit_val c) cs
      else if c = CHR ''_'' \<and> prev then parse_digits False acc cs
      else None)"

definition parse_int :: "(char \<Rightarrow> bool) \<Rightarrow> string \<Rightarrow> int option" where
  "parse_int sp t =
     (case strip sp t of
        [] \<Rightarrow> None
      | c # cs \<Rightarrow>
          (if c = CHR ''-'' then map_option uminus (parse_digits False 0 cs)
           else if c = CHR ''+'' then parse_digits False 0 cs
           else parse_digits False 0 (c # cs)))"

text \<open>Rounding a finite float \<open>m * 2^e\<close> and a finite decimal \<open>c * 10^e\<close> toward zero.\<close>

definition trunc_dyadic :: "int \<Rightarrow> int \<Rightarrow> int" where
  "trunc_dyadic m e =
     (if 0 \<le> e then m * 2 ^ nat e
      else if 0 \<le> m then m div 2 ^ nat (- e)
      else - ((- m) div 2 ^ nat (- e)))"

definition trunc_decimal :: "bool \<Rightarrow> nat \<Rightarrow> int \<Rightarrow> int" where
  "trunc_decimal sg c e =
     (let n = (if 0 \<le> e then int c * 10 ^ nat e else int c div 10 ^ nat (- e))
      in if sg then - n else n)"

text \<open>
  An integer literal in text or bytes. A literal of more than 640 digits is refused when
  the digit limit is set and the literal has more digits than the limit allows.
\<close>

definition int_of_literal :: "pyenv \<Rightarrow> (char \<Rightarrow> bool) \<Rightarrow> string \<Rightarrow> error + int" where
  "int_of_literal env sp t =
     (case parse_int sp t of
        None \<Rightarrow> Inl ValueError
      | Some n \<Rightarrow>
          (let digits = length (filter is_digit t)
           in if 640 < digits \<and> 0 < max_str_digits env \<and> max_str_digits env < digits
              then Inl ValueError
              else Inr n))"

text \<open>\<^verbatim>\<open>int(x)\<close>.\<close>

definition py_int :: "pyenv \<Rightarrow> coercion" where
  "py_int env s x =
     (case x of
        VInt n \<Rightarrow> Inr (VInt n, s)
      | VBool b \<Rightarrow> Inr (VInt (if b then 1 else 0), s)
      | VFloat f \<Rightarrow>
          (case f of
             Finite m e \<Rightarrow> Inr (VInt (trunc_dyadic m e), s)
           | NaN i \<Rightarrow> Inl ValueError
           | _ \<Rightarrow> Inl OverflowError)
      | VDecimal d \<Rightarrow>
          (case d of
             DFinite sg c e \<Rightarrow> Inr (VInt (trunc_decimal sg c e), s)
           | DInfinity sg \<Rightarrow> Inl OverflowError
           | _ \<Rightarrow> Inl ValueError)
      | VStr t \<Rightarrow>
          (case int_of_literal env is_space t of
             Inl e \<Rightarrow> Inl e
           | Inr n \<Rightarrow> Inr (VInt n, s))
      | VBytes bs \<Rightarrow>
          (case int_of_literal env is_ascii_space (map (\<lambda>b. char_of (unat b)) bs) of
             Inl e \<Rightarrow> Inl e
           | Inr n \<Rightarrow> Inr (VInt n, s))
      | _ \<Rightarrow> Inl TypeError)"

subsection \<open>\<^verbatim>\<open>bool\<close>\<close>

definition py_bool :: coercion where
  "py_bool s x =
     (case x of
        VNone \<Rightarrow> Inr (VBool False, s)
      | VNoDefault \<Rightarrow> Inr (VBool True, s)
      | VBool b \<Rightarrow> Inr (VBool b, s)
      | VInt n \<Rightarrow> Inr (VBool (n \<noteq> 0), s)
      | VFloat f \<Rightarrow> Inr (VBool (case f of Finite m e \<Rightarrow> m \<noteq> 0 | _ \<Rightarrow> True), s)
      | VDecimal d \<Rightarrow> Inr (VBool (case d of DFinite sg c e \<Rightarrow> c \<noteq> 0 | _ \<Rightarrow> True), s)
      | VStr t \<Rightarrow> Inr (VBool (t \<noteq> []), s)
      | VBytes bs \<Rightarrow> Inr (VBool (bs \<noteq> []), s)
      | VRange a b c \<Rightarrow> Inr (VBool (range_len a b c \<noteq> 0), s)
      | VTuple i xs \<Rightarrow> Inr (VBool (xs \<noteq> []), s)
      | VFrozenSet i xs \<Rightarrow> Inr (VBool (xs \<noteq> []), s)
      | VRef a \<Rightarrow>
          (case lookup s a of
             None \<Rightarrow> Inl DanglingReference
           | Some (OList xs) \<Rightarrow> Inr (VBool (xs \<noteq> []), s)
           | Some (OSet xs) \<Rightarrow> Inr (VBool (xs \<noteq> []), s)
           | Some (ODict kvs) \<Rightarrow> Inr (VBool (kvs \<noteq> []), s)))"

subsection \<open>\<^verbatim>\<open>bytes\<close>\<close>

text \<open>One element of an iterable handed to \<^verbatim>\<open>bytes\<close>: an integer in \<open>range(256)\<close>.\<close>

definition byte_of_item :: "pyval \<Rightarrow> error + byte" where
  "byte_of_item x =
     (case x of
        VInt n \<Rightarrow> (if 0 \<le> n \<and> n < 256 then Inr (word_of_int n) else Inl ValueError)
      | VBool b \<Rightarrow> Inr (if b then 1 else 0)
      | _ \<Rightarrow> Inl TypeError)"

fun bytes_of_items :: "pyval list \<Rightarrow> error + byte list" where
  "bytes_of_items [] = Inr []"
| "bytes_of_items (x # xs) =
     (case byte_of_item x of
        Inl e \<Rightarrow> Inl e
      | Inr b \<Rightarrow> (case bytes_of_items xs of Inl e \<Rightarrow> Inl e | Inr bs \<Rightarrow> Inr (b # bs)))"

text \<open>
  \<^verbatim>\<open>bytes(n)\<close> for an integer \<open>n\<close>: that many zero bytes. The count must fit the
  machine's size type (else \<^verbatim>\<open>OverflowError\<close>), must not be negative (else
  \<^verbatim>\<open>ValueError\<close>), and there must be room for the bytes (else \<^verbatim>\<open>MemoryError\<close>).
\<close>

definition zero_bytes :: "pyenv \<Rightarrow> int \<Rightarrow> error + byte list" where
  "zero_bytes env n =
     (if n < - maxsize env - 1 \<or> maxsize env < n then Inl OverflowError
      else if n < 0 then Inl ValueError
      else if no_room env (nat n) then Inl MemoryError
      else Inr (replicate (nat n) 0))"

text \<open>
  \<^verbatim>\<open>bytes(x)\<close> with one argument: text is refused (there is no encoding), an integer
  gives that many zero bytes, an iterable gives its items.
\<close>

definition py_bytes :: "pyenv \<Rightarrow> coercion" where
  "py_bytes env s x =
     (case x of
        VStr t \<Rightarrow> Inl TypeError
      | VBytes bs \<Rightarrow> Inr (VBytes bs, s)
      | VInt n \<Rightarrow> (case zero_bytes env n of Inl e \<Rightarrow> Inl e | Inr bs \<Rightarrow> Inr (VBytes bs, s))
      | VBool b \<Rightarrow> Inr (VBytes (replicate (if b then 1 else 0) 0), s)
      | VNone \<Rightarrow> Inl TypeError
      | VNoDefault \<Rightarrow> Inl TypeError
      | VFloat f \<Rightarrow> Inl TypeError
      | VDecimal d \<Rightarrow> Inl TypeError
      | _ \<Rightarrow>
          (case py_items env s x of
             Inl e \<Rightarrow> Inl e
           | Inr xs \<Rightarrow> (case bytes_of_items xs of Inl e \<Rightarrow> Inl e | Inr bs \<Rightarrow> Inr (VBytes bs, s))))"

subsection \<open>\<^verbatim>\<open>float\<close> and \<^verbatim>\<open>decimal.Decimal\<close>\<close>

text \<open>\<^verbatim>\<open>float(x)\<close>: a float is returned as it is.\<close>

definition py_float :: "pyenv \<Rightarrow> coercion" where
  "py_float env s x =
     (case x of
        VFloat f \<Rightarrow> Inr (VFloat f, s)
      | _ \<Rightarrow> (case to_float env s x of Inl e \<Rightarrow> Inl e | Inr f \<Rightarrow> Inr (VFloat f, s)))"

text \<open>\<^verbatim>\<open>decimal.Decimal(x)\<close>: a decimal is returned as it is, whatever the context.\<close>

definition py_decimal :: "pyenv \<Rightarrow> coercion" where
  "py_decimal env s x =
     (case x of
        VDecimal d \<Rightarrow> Inr (VDecimal d, s)
      | _ \<Rightarrow> (case to_decimal env s x of Inl e \<Rightarrow> Inl e | Inr d \<Rightarrow> Inr (VDecimal d, s)))"

subsection \<open>\<^verbatim>\<open>String.func\<close>\<close>

text \<open>
  \<^verbatim>\<open>str(obj, enc)\<close>: only bytes can be decoded, anything else raises \<^verbatim>\<open>TypeError\<close>.
  \<^verbatim>\<open>str(obj)\<close>: the textual representation, which may raise.
\<close>

definition py_str_decode :: "pyenv \<Rightarrow> pyval \<Rightarrow> string \<Rightarrow> error + pyval" where
  "py_str_decode env obj codec =
     (case obj of
        VBytes bs \<Rightarrow> (case decode env codec bs of Inl e \<Rightarrow> Inl e | Inr t \<Rightarrow> Inr (VStr t))
      | _ \<Rightarrow> Inl TypeError)"

definition py_str :: "pyenv \<Rightarrow> store \<Rightarrow> pyval \<Rightarrow> error + pyval" where
  "py_str env s obj =
     (case obj of
        VStr t \<Rightarrow> Inr (VStr t)
      | _ \<Rightarrow> (case to_str env s obj of Inl e \<Rightarrow> Inl e | Inr t \<Rightarrow> Inr (VStr t)))"

text \<open>
  \<^verbatim>\<open>
  def func(obj, enc='UTF-8'):
      if isinstance(obj, str):
          return obj
      else:
          try:
              return str(obj, enc)
          except TypeError:
              return str(obj)
  \<close>
\<close>

definition String_func :: "pyenv \<Rightarrow> string \<Rightarrow> coercion" where
  "String_func env codec s obj =
     (case obj of
        VStr t \<Rightarrow> Inr (VStr t, s)
      | _ \<Rightarrow>
          (case py_str_decode env obj codec of
             Inr v \<Rightarrow> Inr (v, s)
           | Inl e \<Rightarrow>
               (if e = TypeError
                then (case py_str env s obj of Inl e' \<Rightarrow> Inl e' | Inr v \<Rightarrow> Inr (v, s))
                else Inl e)))"

section \<open>Fields\<close>

text \<open>
  The classes of \<^verbatim>\<open>fields.py\<close>. The method \<^verbatim>\<open>contribute_to_structure\<close> installs a
  \<^verbatim>\<open>FieldDescriptor\<close> of \<^verbatim>\<open>structures/descriptors.py\<close> on the owning structure; the
  descriptor comes last in this section.

  A field object. \<open>func\<close> is the coercion function, \<open>default_val\<close> the attribute
  \<^verbatim>\<open>default\<close> as ordinary lookup finds it (the class attribute \<^verbatim>\<open>NoDefault\<close> until the
  instance gets one of its own), \<open>underscore_default\<close> the attribute \<^verbatim>\<open>_default\<close> of a
  \<^verbatim>\<open>StandartContainer\<close>, \<open>enc\<close> the codec name of a \<^verbatim>\<open>String\<close>. \<open>is_container\<close> says whether
  the object's class is a \<^verbatim>\<open>StandartContainer\<close>, where \<^verbatim>\<open>default\<close> is a property.
\<close>

record field =
  func :: coercion
  default_val :: pyval
  underscore_default :: pyval
  enc :: "string option"
  is_container :: bool

text \<open>
  The world a field lives in: the store, and a log of the arguments with which field
  coercion functions have been called, oldest first.
\<close>

record world =
  mem :: store
  calls :: "pyval list"

text \<open>The call \<^verbatim>\<open>self.func(x)\<close>.\<close>

definition call_func :: "field \<Rightarrow> pyval \<Rightarrow> world \<Rightarrow> error + pyval \<times> world" where
  "call_func self x w =
     (case func self (mem w) x of
        Inl e \<Rightarrow> Inl e
      | Inr (v, s') \<Rightarrow> Inr (v, \<lparr>mem = s', calls = calls w @ [x]\<rparr>))"

text \<open>
  The assignment \<^verbatim>\<open>self.default = value\<close>. On a \<^verbatim>\<open>StandartContainer\<close> it runs the setter
  \<^verbatim>\<open>
  @default.setter
  def default(self, value):
      self._default = value
  \<close>
\<close>

definition set_default :: "field \<Rightarrow> pyval \<Rightarrow> field" where
  "set_default self v =
     (if is_container self then self\<lparr>underscore_default := v\<rparr> else self\<lparr>default_val := v\<rparr>)"

text \<open>
  The read \<^verbatim>\<open>self.default\<close>, which is how an attribute with no instance value gets its
  value. On a \<^verbatim>\<open>StandartContainer\<close> it runs the getter
  \<^verbatim>\<open>
  @property
  def default(self):
      if self._default is not NoDefault:
          return self.func(self._default)
      else:
        return NoDefault
  \<close>
\<close>

definition get_default :: "field \<Rightarrow> world \<Rightarrow> error + pyval \<times> world" where
  "get_default self w =
     (if is_container self
      then (if underscore_default self \<noteq> VNoDefault
            then call_func self (underscore_default self) w
            else Inr (VNoDefault, w))
      else Inr (default_val self, w))"

text \<open>
  \<^verbatim>\<open>
  def __init__(self, func, default=NoDefault):
      self.func = func

      if default is not NoDefault:
          self.default = self.func(default)
  \<close>
\<close>

definition Field_init :: "field \<Rightarrow> coercion \<Rightarrow> pyval \<Rightarrow> world \<Rightarrow> error + field \<times> world" where
  "Field_init self f d w =
     (let self1 = self\<lparr>func := f\<rparr>
      in if d \<noteq> VNoDefault
         then (case call_func self1 d w of
                 Inl e \<Rightarrow> Inl e
               | Inr (v, w') \<Rightarrow> Inr (set_default self1 v, w'))
         else Inr (self1, w))"

text \<open>
  A new object before \<^verbatim>\<open>__init__\<close> runs: every attribute is found on the class, where
  \<^verbatim>\<open>func = lambda x: x\<close>, \<^verbatim>\<open>default = NoDefault\<close> and \<^verbatim>\<open>_default = NoDefault\<close>.
\<close>

definition new_object :: "bool \<Rightarrow> field" where
  "new_object c =
     \<lparr>func = (\<lambda>s x. Inr (x, s)), default_val = VNoDefault, underscore_default = VNoDefault,
      enc = None, is_container = c\<rparr>"

text \<open>\<^verbatim>\<open>Field(func, default)\<close>.\<close>

definition Field_new :: "coercion \<Rightarrow> pyval \<Rightarrow> world \<Rightarrow> error + field \<times> world" where
  "Field_new f d w = Field_init (new_object False) f d w"

text \<open>
  The subclasses of \<^verbatim>\<open>SimpleField\<close> and the function each names as \<^verbatim>\<open>func\<close>;
  \<^verbatim>\<open>SimpleField\<close> itself keeps \<^verbatim>\<open>lambda x: x\<close>, and \<^verbatim>\<open>Binary.func\<close> warns and calls
  \<^verbatim>\<open>bytes\<close>.
\<close>

datatype simple_kind = SimpleField | Integer | Float | Decimal | Boolean | Bytes | Binary

definition simple_func :: "pyenv \<Rightarrow> simple_kind \<Rightarrow> coercion" where
  "simple_func env k =
     (case k of
        SimpleField \<Rightarrow> (\<lambda>s x. Inr (x, s))
      | Integer \<Rightarrow> py_int env
      | Float \<Rightarrow> py_float env
      | Decimal \<Rightarrow> py_decimal env
      | Boolean \<Rightarrow> py_bool
      | Bytes \<Rightarrow> py_bytes env
      | Binary \<Rightarrow> py_bytes env)"

text \<open>
  \<^verbatim>\<open>
  def __init__(self, default=NoDefault):
      super(SimpleField, self).__init__(self.__class__.func, default)
  \<close>
\<close>

definition SimpleField_init :: "pyenv \<Rightarrow> simple_kind \<Rightarrow> pyval \<Rightarrow> world \<Rightarrow> error + field \<times> world" where
  "SimpleField_init env k d w = Field_init (new_object False) (simple_func env k) d w"

text \<open>
  \<^verbatim>\<open>
  def __init__(self, default=NoDefault, enc='UTF-8'):
      self.enc = enc
      super(String, self).__init__(lambda o, e=enc: self.__class__.func(o, e), default)
  \<close>
\<close>

definition String_init :: "pyenv \<Rightarrow> pyval \<Rightarrow> string option \<Rightarrow> world \<Rightarrow> error + field \<times> world" where
  "String_init env d enc_arg w =
     (let codec = (case enc_arg of None \<Rightarrow> ''UTF-8'' | Some c \<Rightarrow> c)
      in Field_init ((new_object False)\<lparr>enc := Some codec\<rparr>) (String_func env codec) d w)"

text \<open>The subclasses of \<^verbatim>\<open>StandartContainer\<close> and the function each names as \<^verbatim>\<open>func\<close>.\<close>

datatype container_kind = List | Tuple | Set | FrozenSet | Dict

definition container_func :: "pyenv \<Rightarrow> container_kind \<Rightarrow> coercion" where
  "container_func env k =
     (case k of
        List \<Rightarrow> py_list env
      | Tuple \<Rightarrow> py_tuple env
      | Set \<Rightarrow> py_set env
      | FrozenSet \<Rightarrow> py_frozenset env
      | Dict \<Rightarrow> py_dict env)"

text \<open>
  \<^verbatim>\<open>
  def __init__(self, default=NoDefault):
      super().__init__(self.func, default)
  \<close>
\<close>

definition StandartContainer_init ::
  "pyenv \<Rightarrow> container_kind \<Rightarrow> pyval \<Rightarrow> world \<Rightarrow> error + field \<times> world" where
  "StandartContainer_init env k d w = Field_init (new_object True) (container_func env k) d w"

text \<open>
  Modelled from the spec: the descriptor \<^verbatim>\<open>FieldDescriptor\<close> of
  \<^verbatim>\<open>structures/descriptors.py\<close>, through which an attribute of a structure instance is
  written and read. An instance keeps its own values by attribute name. A write stores
  what the field's coercion function makes of the value; if the function raises, the
  write fails and the instance is as before. A read returns the instance's value when
  there is one; otherwise it returns the field's \<^verbatim>\<open>default\<close>, and fails when that is the
  sentinel.
\<close>

type_synonym inst = "string \<rightharpoonup> pyval"

definition FieldDescriptor_set ::
  "string \<Rightarrow> field \<Rightarrow> inst \<Rightarrow> pyval \<Rightarrow> world \<Rightarrow> error + inst \<times> world" where
  "FieldDescriptor_set name fld obj v w =
     (case call_func fld v w of
        Inl e \<Rightarrow> Inl e
      | Inr (c, w') \<Rightarrow> Inr (obj(name \<mapsto> c), w'))"

definition FieldDescriptor_get ::
  "string \<Rightarrow> field \<Rightarrow> inst \<Rightarrow> world \<Rightarrow> error + pyval \<times> world" where
  "FieldDescriptor_get name fld obj w =
     (case obj name of
        Some v \<Rightarrow> Inr (v, w)
      | None \<Rightarrow>
          (case get_default fld w of
             Inl e \<Rightarrow> Inl e
           | Inr (d, w') \<Rightarrow> (if d = VNoDefault then Inl AttributeError else Inr (d, w'))))"

section \<open>Notions used to state the properties\<close>

text \<open>
  Object identity (\<^verbatim>\<open>x is y\<close>) of two containers: the same address, or the same tag.
\<close>

definition obj_id :: "pyval \<Rightarrow> (nat + nat) option" where
  "obj_id x =
     (case x of
        VRef a \<Rightarrow> Some (Inl a)
      | VTuple i xs \<Rightarrow> Some (Inr i)
      | VFrozenSet i xs \<Rightarrow> Some (Inr i)
      | _ \<Rightarrow> None)"

definition same_object :: "pyval \<Rightarrow> pyval \<Rightarrow> bool" where
  "same_object x y = (obj_id x \<noteq> None \<and> obj_id x = obj_id y)"

text \<open>What a container holds: the object a reference points to, or the elements carried.\<close>

definition contents :: "store \<Rightarrow> pyval \<Rightarrow> pyobj option" where
  "contents s x =
     (case x of
        VRef a \<Rightarrow> lookup s a
      | VTuple i xs \<Rightarrow> Some (OList xs)
      | VFrozenSet i xs \<Rightarrow> Some (OSet xs)
      | _ \<Rightarrow> None)"

text \<open>The number a finite float stands for, and rounding a real number toward zero.\<close>

definition float_value :: "int \<Rightarrow> int \<Rightarrow> real" where
  "float_value m e = (if 0 \<le> e then of_int m * 2 ^ nat e else of_int m / 2 ^ nat (- e))"

definition toward_zero :: "real \<Rightarrow> int" where
  "toward_zero r = (if 0 \<le> r then \<lfloor>r\<rfloor> else \<lceil>r\<rceil>)"

text \<open>The number a finite decimal stands for.\<close>

definition decimal_value :: "bool \<Rightarrow> nat \<Rightarrow> int \<Rightarrow> real" where
  "decimal_value sg c e =
     (if sg then - 1 else 1) *
     (if 0 \<le> e then of_nat c * 10 ^ nat e else of_nat c / 10 ^ nat (- e))"

text \<open>The number a string of decimal digits denotes.\<close>

definition dec_value :: "string \<Rightarrow> int" where
  "dec_value ds = (\<Sum>i<length ds. digit_val (ds ! i) * 10 ^ (length ds - Suc i))"

text \<open>
  The digits of an integer literal come in groups with single underscores between
  them: \<^verbatim>\<open>1_000\<close> has the groups \<^verbatim>\<open>1\<close> and \<^verbatim>\<open>000\<close>.
\<close>

definition digit_groups :: "string list \<Rightarrow> bool" where
  "digit_groups gs = (gs \<noteq> [] \<and> list_all (\<lambda>g. g \<noteq> [] \<and> list_all is_digit g) gs)"

fun join_groups :: "string list \<Rightarrow> string" where
  "join_groups [] = []"
| "join_groups [g] = g"
| "join_groups (g # h # gs) = g @ CHR ''_'' # join_groups (h # gs)"

text \<open>Whether the digit limit lets a literal of \<open>n\<close> digits pass.\<close>

definition within_limit :: "pyenv \<Rightarrow> nat \<Rightarrow> bool" where
  "within_limit env n = (n \<le> 640 \<or> max_str_digits env = 0 \<or> n \<le> max_str_digits env)"

text \<open>The NaNs: a float NaN, a quiet or a signaling decimal NaN.\<close>

definition is_nan :: "pyval \<Rightarrow> bool" where
  "is_nan x =
     (case x of
        VFloat f \<Rightarrow> (case f of NaN i \<Rightarrow> True | _ \<Rightarrow> False)
      | VDecimal d \<Rightarrow> (case d of DNaN i \<Rightarrow> True | DSNaN i \<Rightarrow> True | _ \<Rightarrow> False)
      | _ \<Rightarrow> False)"

text \<open>
  A list of keys in which no element equals an earlier one, given the keys \<open>acc\<close> that
  came before: what a set object or the key column of a dict holds.
\<close>

fun nodup_from :: "pyval list \<Rightarrow> pyval list \<Rightarrow> bool" where
  "nodup_from acc [] = True"
| "nodup_from acc (y # ys) = (\<not> list_ex (\<lambda>z. key_eq z y) acc \<and> nodup_from (acc @ [y]) ys)"

text \<open>
  The objects that \<^verbatim>\<open>list\<close>, \<^verbatim>\<open>set\<close> and \<^verbatim>\<open>dict\<close> leave in the store: a list object, a
  set object, a dict object.
\<close>

definition built_by :: "container_kind \<Rightarrow> pyobj \<Rightarrow> bool" where
  "built_by k ob =
     (case k of
        List \<Rightarrow> (case ob of OList xs \<Rightarrow> True | _ \<Rightarrow> False)
      | Set \<Rightarrow> (case ob of OSet xs \<Rightarrow> True | _ \<Rightarrow> False)
      | Dict \<Rightarrow> (case ob of ODict kvs \<Rightarrow> True | _ \<Rightarrow> False)
      | _ \<Rightarrow> False)"

definition mutable_kind :: "container_kind \<Rightarrow> bool" where
  "mutable_kind k = (k = List \<or> k = Set \<or> k = Dict)"

text \<open>
  Two scenarios, as functions: declare a container field with a default and look at
  what it has stored as \<^verbatim>\<open>_default\<close>; declare it and read \<^verbatim>\<open>default\<close> twice (two reads
  of an attribute that no instance has set).
\<close>

definition declared_default ::
  "pyenv \<Rightarrow> container_kind \<Rightarrow> pyval \<Rightarrow> world \<Rightarrow> error + pyval \<times> pyobj option" where
  "declared_default env k d w =
     (case StandartContainer_init env k d w of
        Inl e \<Rightarrow> Inl e
      | Inr (fld, w1) \<Rightarrow> Inr (underscore_default fld, contents (mem w1) (underscore_default fld)))"

definition read_twice ::
  "pyenv \<Rightarrow> container_kind \<Rightarrow> pyval \<Rightarrow> world \<Rightarrow> error + pyval \<times> pyval" where
  "read_twice env k d w =
     (case StandartContainer_init env k d w of
        Inl e \<Rightarrow> Inl e
      | Inr (fld, w1) \<Rightarrow>
          (case get_default fld w1 of
             Inl e \<Rightarrow> Inl e
           | Inr (r1, w2) \<Rightarrow>
               (case get_default fld w2 of
                  Inl e \<Rightarrow> Inl e
                | Inr (r2, w3) \<Rightarrow> Inr (r1, r2))))"

text \<open>The types \<^verbatim>\<open>int\<close> converts from: numbers, text and bytes.\<close>

definition number_or_text :: "pyval \<Rightarrow> bool" where
  "number_or_text x =
     (case x of
        VBool b \<Rightarrow> True
      | VInt n \<Rightarrow> True
      | VFloat f \<Rightarrow> True
      | VDecimal d \<Rightarrow> True
      | VStr t \<Rightarrow> True
      | VBytes bs \<Rightarrow> True
      | _ \<Rightarrow> False)"

text \<open>The dict that assigning the pairs \<open>kvs\<close>, in order, to the dict \<open>d\<close> gives.\<close>

definition dict_assign :: "(pyval \<times> pyval) list \<Rightarrow> (pyval \<times> pyval) list \<Rightarrow> (pyval \<times> pyval) list" where
  "dict_assign d kvs = foldl (\<lambda>d kv. dict_set d (fst kv) (snd kv)) d kvs"

text \<open>The characters of a text, as \<^verbatim>\<open>iter\<close> yields them.\<close>

definition chars_of :: "string \<Rightarrow> pyval list" where
  "chars_of t = map (\<lambda>c. VStr [c]) t"

subsection \<open>An environment for the examples\<close>

text \<open>
  Concrete inputs for the examples: an empty world, and one environment. The
  environment answers what the examples ask, as CPython on a 64-bit machine does, and
  answers everything else with the error \<open>OtherError ''not in the example environment''\<close>,
  which no interpreter raises:

  \<^item> its codec registry has the codecs \<^verbatim>\<open>ascii\<close> and \<^verbatim>\<open>latin-1\<close>, whose results stay
    within the text of the model;

  \<^item> its \<^verbatim>\<open>str\<close> renders \<^verbatim>\<open>None\<close>, the truth values and the integers, the latter within the
    digit limit of 4300;

  \<^item> its \<^verbatim>\<open>float\<close> converts the truth values and the integers of at most 53 bits, its
    \<^verbatim>\<open>Decimal\<close> the truth values, the integers, the finite floats and the infinities,
    all of them exactly;

  \<^item> \<^verbatim>\<open>sys.maxsize\<close> is \<open>2^63 - 1 = 9223372036854775807\<close>, and the machine has room for
    \<open>2^40 = 1099511627776\<close> items and no more;

  \<^item> a set of natural numbers yields them in ascending order, as a hash table does whose
    size the numbers do not reach; members of other kinds come first, in the order in
    which they were added, which is one of the orders the language allows.
\<close>

definition empty_world :: world where
  "empty_world = \<lparr>mem = \<lparr>heap = [], next_id = 0\<rparr>, calls = []\<rparr>"

definition not_in_example :: error where
  "not_in_example = OtherError ''not in the example environment''"

definition ascii_decode :: "byte list \<Rightarrow> error + string" where
  "ascii_decode bs =
     (if list_all (\<lambda>b. unat b < 128) bs then Inr (map (\<lambda>b. char_of (unat b)) bs)
      else Inl UnicodeDecodeError)"

definition latin1_decode :: "byte list \<Rightarrow> error + string" where
  "latin1_decode bs = Inr (map (\<lambda>b. char_of (unat b)) bs)"

fun digits_of :: "nat \<Rightarrow> string" where
  "digits_of n =
     (if n < 10 then [char_of (48 + n)]
      else digits_of (n div 10) @ [char_of (48 + n mod 10)])"

declare digits_of.simps [simp del]

definition str_of_int :: "nat \<Rightarrow> int \<Rightarrow> error + string" where
  "str_of_int limit n =
     (let ds = digits_of (nat \<bar>n\<bar>)
      in if 640 < length ds \<and> 0 < limit \<and> limit < length ds then Inl ValueError
         else Inr (if n < 0 then CHR ''-'' # ds else ds))"

definition decimal_of_float :: "pyfloat \<Rightarrow> error + pydecimal" where
  "decimal_of_float f =
     (case f of
        Finite m e \<Rightarrow>
          Inr (if 0 \<le> e then DFinite (m < 0) (nat (\<bar>m\<bar> * 2 ^ nat e)) 0
               else DFinite (m < 0) (nat (\<bar>m\<bar> * 5 ^ nat (- e))) e)
      | PosInf \<Rightarrow> Inr (DInfinity False)
      | NegInf \<Rightarrow> Inr (DInfinity True)
      | NaN i \<Rightarrow> Inl not_in_example)"

definition example_env :: pyenv where
  "example_env =
     \<lparr>decode = (\<lambda>name bs. if name = ''ascii'' then ascii_decode bs
                           else if name = ''latin-1'' then latin1_decode bs
                           else Inl not_in_example),
      to_str = (\<lambda>s x. case x of
                          VNone \<Rightarrow> Inr ''None''
                        | VBool b \<Rightarrow> Inr (if b then ''True'' else ''False'')
                        | VInt n \<Rightarrow> str_of_int 4300 n
                        | _ \<Rightarrow> Inl not_in_example),
      to_float = (\<lambda>s x. case x of
                            VBool b \<Rightarrow> Inr (Finite (if b then 1 else 0) 0)
                          | VInt n \<Rightarrow> (if \<bar>n\<bar> < 2 ^ 53 then Inr (Finite n 0)
                                       else Inl not_in_example)
                          | _ \<Rightarrow> Inl not_in_example),
      to_decimal = (\<lambda>s x. case x of
                              VBool b \<Rightarrow> Inr (DFinite False (if b then 1 else 0) 0)
                            | VInt n \<Rightarrow> Inr (DFinite (n < 0) (nat \<bar>n\<bar>) 0)
                            | VFloat f \<Rightarrow> decimal_of_float f
                            | _ \<Rightarrow> Inl not_in_example),
      max_str_digits = 4300,
      maxsize = 9223372036854775807,
      no_room = (\<lambda>n. 1099511627776 < int n),
      set_rank = (\<lambda>xs x. case x of VInt n \<Rightarrow> nat n | _ \<Rightarrow> 0)\<rparr>"

section \<open>Lemmas about the store and the container constructors\<close>

lemma foldl_set_add_nodup:
  "nodup_from acc ys \<Longrightarrow> foldl set_add acc ys = acc @ ys"
  by (induction ys arbitrary: acc) (simp_all add: set_add_def)

lemma nodup_from_snoc:
  "nodup_from a (ys @ [y]) = (nodup_from a ys \<and> \<not> list_ex (\<lambda>z. key_eq z y) (a @ ys))"
  by (induction ys arbitrary: a) auto

lemma nodup_set_add: "nodup_from [] acc \<Longrightarrow> nodup_from [] (set_add acc x)"
  by (simp add: set_add_def nodup_from_snoc)

lemma nodup_foldl_set_add: "nodup_from [] acc \<Longrightarrow> nodup_from [] (foldl set_add acc xs)"
  by (induction xs arbitrary: acc) (simp_all add: nodup_set_add)

lemma nodup_set_items: "nodup_from [] (set_items xs)"
  by (simp add: set_items_def nodup_foldl_set_add)

lemma set_items_nodup: "nodup_from [] ys \<Longrightarrow> set_items ys = ys"
  using foldl_set_add_nodup [of "[]" ys] by (simp add: set_items_def)

lemma set_set_add: "set (set_add acc x) \<subseteq> insert x (set acc)"
  by (auto simp: set_add_def)

lemma set_foldl_set_add: "set (foldl set_add acc xs) \<subseteq> set acc \<union> set xs"
proof (induction xs arbitrary: acc)
  case Nil
  show ?case by simp
next
  case (Cons x xs)
  have "set (foldl set_add (set_add acc x) xs) \<subseteq> set (set_add acc x) \<union> set xs"
    by (rule Cons.IH)
  with set_set_add [of acc x] show ?case by auto
qed

lemma set_set_items: "set (set_items xs) \<subseteq> set xs"
  using set_foldl_set_add [of "[]" xs] by (simp add: set_items_def)

lemma hashable_set_items: "list_all hashable xs \<Longrightarrow> list_all hashable (set_items xs)"
  using set_set_items [of xs] by (auto simp: list_all_iff)

lemma lookup_append_new: "lookup (s\<lparr>heap := heap s @ [ob]\<rparr>) (length (heap s)) = Some ob"
  by (simp add: lookup_def)

lemma py_iter_ref:
  "lookup s a = Some ob \<Longrightarrow>
   py_iter env s (VRef a) =
     Inr (case ob of OList xs \<Rightarrow> xs | OSet xs \<Rightarrow> iter_set env xs | ODict kvs \<Rightarrow> map fst kvs)"
  by (simp add: py_iter_def split: pyobj.splits)

lemma py_items_no_hint: "hint_error env x = None \<Longrightarrow> py_items env s x = py_iter env s x"
  by (simp add: py_items_def)

lemma hint_error_ref: "hint_error env (VRef a) = None"
  by (simp add: hint_error_def)

lemma py_items_ref: "py_items env s (VRef a) = py_iter env s (VRef a)"
  by (simp add: py_items_def hint_error_def)

lemma members_ref_set: "lookup s a = Some (OSet xs) \<Longrightarrow> members s (VRef a) = Some xs"
  by (simp add: members_def)

lemma py_list_built:
  "py_list env s d = Inr (v, s') \<Longrightarrow>
   \<exists>xs. py_items env s d = Inr xs \<and> v = VRef (length (heap s)) \<and>
        s' = s\<lparr>heap := heap s @ [OList xs]\<rparr>"
  by (auto simp: py_list_def alloc_def split: sum.splits)

lemma py_set_built:
  "py_set env s d = Inr (v, s') \<Longrightarrow>
   \<exists>ys. collect_members env s d = Inr ys \<and> v = VRef (length (heap s)) \<and>
        s' = s\<lparr>heap := heap s @ [OSet ys]\<rparr>"
  by (auto simp: py_set_def alloc_def split: sum.splits)

lemma py_dict_built:
  "py_dict env s d = Inr (v, s') \<Longrightarrow>
   \<exists>kvs. v = VRef (length (heap s)) \<and> s' = s\<lparr>heap := heap s @ [ODict kvs]\<rparr>"
  by (auto simp: py_dict_def alloc_def split: sum.splits if_splits)

lemma py_tuple_result:
  "py_tuple env s d = Inr (v, s') \<Longrightarrow> \<exists>i xs. v = VTuple i xs"
  by (cases d) (auto simp: py_tuple_def fresh_id_def split: sum.splits)

lemma py_frozenset_result:
  "py_frozenset env s d = Inr (v, s') \<Longrightarrow> \<exists>i xs. v = VFrozenSet i xs"
  by (cases d) (auto simp: py_frozenset_def fresh_id_def split: sum.splits)

lemma mutable_kind_cases:
  assumes "mutable_kind k"
  obtains "k = List" | "k = Set" | "k = Dict"
  using assms by (auto simp: mutable_kind_def)

lemma immutable_kind_cases:
  assumes "\<not> mutable_kind k"
  obtains "k = Tuple" | "k = FrozenSet"
  using assms by (cases k) (auto simp: mutable_kind_def)

text \<open>What \<^verbatim>\<open>list\<close>, \<^verbatim>\<open>set\<close> and \<^verbatim>\<open>dict\<close> return: a new object at the next free address.\<close>

lemma mutable_built:
  assumes "mutable_kind k" and "container_func env k s d = Inr (v, s')"
  shows "\<exists>ob. built_by k ob \<and> v = VRef (length (heap s)) \<and> s' = s\<lparr>heap := heap s @ [ob]\<rparr>"
  using assms(1)
proof (cases rule: mutable_kind_cases)
  case 1
  with assms(2) have "py_list env s d = Inr (v, s')" by (simp add: container_func_def)
  from py_list_built [OF this] obtain xs where
    "v = VRef (length (heap s))" "s' = s\<lparr>heap := heap s @ [OList xs]\<rparr>" by blast
  moreover have "built_by k (OList xs)" using 1 by (simp add: built_by_def)
  ultimately show ?thesis by blast
next
  case 2
  with assms(2) have "py_set env s d = Inr (v, s')" by (simp add: container_func_def)
  from py_set_built [OF this] obtain ys where
    "v = VRef (length (heap s))" "s' = s\<lparr>heap := heap s @ [OSet ys]\<rparr>" by blast
  moreover have "built_by k (OSet ys)" using 2 by (simp add: built_by_def)
  ultimately show ?thesis by blast
next
  case 3
  with assms(2) have "py_dict env s d = Inr (v, s')" by (simp add: container_func_def)
  from py_dict_built [OF this] obtain kvs where
    "v = VRef (length (heap s))" "s' = s\<lparr>heap := heap s @ [ODict kvs]\<rparr>" by blast
  moreover have "built_by k (ODict kvs)" using 3 by (simp add: built_by_def)
  ultimately show ?thesis by blast
qed

text \<open>Applied to an object they built themselves, they return a copy of it.\<close>

lemma mutable_copy:
  assumes "mutable_kind k" and "built_by k ob" and "lookup s a = Some ob"
  shows "container_func env k s (VRef a) = Inr (VRef (length (heap s)), s\<lparr>heap := heap s @ [ob]\<rparr>)"
  using assms(1)
proof (cases rule: mutable_kind_cases)
  case 1
  with assms(2,3) show ?thesis
    by (auto simp: container_func_def py_list_def alloc_def built_by_def py_items_ref
        py_iter_ref split: pyobj.splits)
next
  case 2
  with assms(2,3) show ?thesis
    by (auto simp: container_func_def py_set_def collect_members_def alloc_def built_by_def
        members_ref_set split: pyobj.splits)
next
  case 3
  with assms(2,3) show ?thesis
    by (auto simp: container_func_def py_dict_def alloc_def built_by_def is_dict_def
        dict_items_def split: pyobj.splits)
qed

text \<open>\<^verbatim>\<open>tuple\<close> and \<^verbatim>\<open>frozenset\<close> return their own results unchanged, in any store.\<close>

lemma immutable_same:
  assumes "\<not> mutable_kind k" and "container_func env k s d = Inr (v, s')"
  shows "container_func env k s'' v = Inr (v, s'')"
  using assms(1)
proof (cases rule: immutable_kind_cases)
  case 1
  with assms(2) have "py_tuple env s d = Inr (v, s')" by (simp add: container_func_def)
  from py_tuple_result [OF this] obtain i xs where "v = VTuple i xs" by blast
  then show ?thesis using 1 by (simp add: container_func_def py_tuple_def)
next
  case 2
  with assms(2) have "py_frozenset env s d = Inr (v, s')" by (simp add: container_func_def)
  from py_frozenset_result [OF this] obtain i xs where "v = VFrozenSet i xs" by blast
  then show ?thesis using 2 by (simp add: container_func_def py_frozenset_def)
qed

lemma immutable_result:
  assumes "\<not> mutable_kind k" and "container_func env k s d = Inr (v, s')"
  shows "(\<exists>i xs. v = VTuple i xs) \<or> (\<exists>i xs. v = VFrozenSet i xs)"
  using assms(1)
proof (cases rule: immutable_kind_cases)
  case 1
  with assms(2) have "py_tuple env s d = Inr (v, s')" by (simp add: container_func_def)
  from py_tuple_result [OF this] show ?thesis by blast
next
  case 2
  with assms(2) have "py_frozenset env s d = Inr (v, s')" by (simp add: container_func_def)
  from py_frozenset_result [OF this] show ?thesis by blast
qed

lemma container_not_sentinel:
  assumes "container_func env k s d = Inr (v, s')"
  shows "v \<noteq> VNoDefault"
proof (cases "mutable_kind k")
  case True
  from mutable_built [OF True assms] show ?thesis by auto
next
  case False
  from immutable_result [OF False assms] show ?thesis by auto
qed

section \<open>Lemmas about field construction\<close>

lemma Field_init_error:
  "d \<noteq> VNoDefault \<Longrightarrow> f (mem w) d = Inl e \<Longrightarrow> Field_init self f d w = Inl e"
  by (simp add: Field_init_def call_func_def)

lemma Field_init_no_default:
  "Field_init self f VNoDefault w = Inr (self\<lparr>func := f\<rparr>, w)"
  by (simp add: Field_init_def)

lemma Field_init_cases:
  assumes "Field_init self f d w = Inr (fld, w1)" and "d \<noteq> VNoDefault"
  shows "\<exists>v. f (mem w) d = Inr (v, mem w1) \<and> calls w1 = calls w @ [d] \<and>
             fld = set_default (self\<lparr>func := f\<rparr>) v"
  using assms
  by (auto simp: Field_init_def call_func_def split: sum.splits prod.splits)

lemma Field_init_func:
  assumes "Field_init self f d w = Inr (fld, w1)"
  shows "func fld = f"
proof (cases "d = VNoDefault")
  case True
  with assms show ?thesis by (auto simp: Field_init_no_default)
next
  case False
  from Field_init_cases [OF assms False] show ?thesis by (auto simp: set_default_def)
qed

lemma get_default_scalar:
  "\<not> is_container self \<Longrightarrow> get_default (set_default (self\<lparr>func := f\<rparr>) v) w' = Inr (v, w')"
  by (simp add: get_default_def set_default_def)

lemma scalar_init:
  assumes "Field_init self f d w = Inr (fld, w1)" and "d \<noteq> VNoDefault" and "\<not> is_container self"
  shows "\<exists>v. f (mem w) d = Inr (v, mem w1) \<and> calls w1 = calls w @ [d] \<and> default_val fld = v \<and>
             (\<forall>w'. get_default fld w' = Inr (v, w'))"
proof -
  from Field_init_cases [OF assms(1,2)] obtain v where
    v: "f (mem w) d = Inr (v, mem w1)" "calls w1 = calls w @ [d]"
       "fld = set_default (self\<lparr>func := f\<rparr>) v"
    by blast
  have "default_val fld = v" using v(3) assms(3) by (simp add: set_default_def)
  moreover have "\<forall>w'. get_default fld w' = Inr (v, w')"
    using v(3) assms(3) by (simp add: get_default_scalar)
  ultimately show ?thesis using v by blast
qed

lemma container_init:
  assumes "d \<noteq> VNoDefault" and "StandartContainer_init env k d w = Inr (fld, w1)"
  shows "\<exists>v. container_func env k (mem w) d = Inr (v, mem w1) \<and> calls w1 = calls w @ [d] \<and>
             underscore_default fld = v \<and> v \<noteq> VNoDefault \<and>
             (\<forall>w'. get_default fld w' = call_func fld v w') \<and> func fld = container_func env k"
proof -
  from assms(2) have "Field_init (new_object True) (container_func env k) d w = Inr (fld, w1)"
    by (simp add: StandartContainer_init_def)
  from Field_init_cases [OF this assms(1)] obtain v where
    v: "container_func env k (mem w) d = Inr (v, mem w1)" "calls w1 = calls w @ [d]"
       "fld = set_default ((new_object True)\<lparr>func := container_func env k\<rparr>) v"
    by blast
  from container_not_sentinel [OF v(1)] have ns: "v \<noteq> VNoDefault" .
  from v(3) have u: "underscore_default fld = v" "is_container fld" "func fld = container_func env k"
    by (simp_all add: set_default_def new_object_def)
  then have "\<forall>w'. get_default fld w' = call_func fld v w'"
    using ns by (simp add: get_default_def)
  with v ns u show ?thesis by blast
qed

lemma read_mutable:
  assumes "mutable_kind k" and "built_by k ob" and "func fld = container_func env k"
    and "get_default fld w' = call_func fld (VRef a) w'" and "lookup (mem w') a = Some ob"
  shows "get_default fld w' =
           Inr (VRef (length (heap (mem w'))),
                \<lparr>mem = (mem w')\<lparr>heap := heap (mem w') @ [ob]\<rparr>, calls = calls w' @ [VRef a]\<rparr>)"
  using assms(3,4) mutable_copy [OF assms(1,2,5)] by (simp add: call_func_def)

lemma scalar_init_ok:
  assumes "d \<noteq> VNoDefault" and "g (mem w) d = Inr (v, s')" and "\<not> is_container self"
  shows "\<exists>fld'. Field_init self g d w = Inr (fld', \<lparr>mem = s', calls = calls w @ [d]\<rparr>) \<and>
               default_val fld' = v \<and> (\<forall>w'. get_default fld' w' = Inr (v, w'))"
proof -
  have "Field_init self g d w =
          Inr (set_default (self\<lparr>func := g\<rparr>) v, \<lparr>mem = s', calls = calls w @ [d]\<rparr>)"
    using assms(1,2) by (simp add: Field_init_def call_func_def)
  moreover have "default_val (set_default (self\<lparr>func := g\<rparr>) v) = v"
    using assms(3) by (simp add: set_default_def)
  moreover have "\<forall>w'. get_default (set_default (self\<lparr>func := g\<rparr>) v) w' = Inr (v, w')"
    using assms(3) by (simp add: get_default_scalar)
  ultimately show ?thesis by blast
qed

text \<open>The items of \<^verbatim>\<open>range(665, 668)\<close> in the example environment.\<close>

lemma range_example_items:
  "py_items example_env s (VRange 665 668 1) = Inr [VInt 665, VInt 666, VInt 667]"
proof -
  have "range_len 665 668 1 = 3" by code_simp
  moreover have "range_items 665 668 1 = [VInt 665, VInt 666, VInt 667]" by code_simp
  ultimately show ?thesis
    by (simp add: py_items_def hint_error_def py_iter_def example_env_def)
qed

text \<open>The list field declared with \<^verbatim>\<open>range(665, 668)\<close> in an empty world, used in examples.\<close>

lemma list_field_example:
  "StandartContainer_init example_env List (VRange 665 668 1) empty_world =
     Inr (\<lparr>func = container_func example_env List, default_val = VNoDefault, underscore_default = VRef 0,
           enc = None, is_container = True\<rparr>,
          \<lparr>mem = \<lparr>heap = [OList [VInt 665, VInt 666, VInt 667]], next_id = 0\<rparr>,
           calls = [VRange 665 668 1]\<rparr>)"
proof -
  have "range_items 665 668 1 = [VInt 665, VInt 666, VInt 667]" by code_simp
  then show ?thesis
    by (simp add: StandartContainer_init_def Field_init_def call_func_def container_func_def
        py_list_def range_example_items alloc_def new_object_def set_default_def
        empty_world_def)
qed

text \<open>The tuple field declared with \<^verbatim>\<open>range(665, 668)\<close> in an empty world.\<close>

lemma tuple_field_example:
  "StandartContainer_init example_env Tuple (VRange 665 668 1) empty_world =
     Inr (\<lparr>func = container_func example_env Tuple, default_val = VNoDefault,
           underscore_default = VTuple 0 [VInt 665, VInt 666, VInt 667],
           enc = None, is_container = True\<rparr>,
          \<lparr>mem = \<lparr>heap = [], next_id = 1\<rparr>, calls = [VRange 665 668 1]\<rparr>)"
proof -
  have "range_items 665 668 1 = [VInt 665, VInt 666, VInt 667]" by code_simp
  then show ?thesis
    by (simp add: StandartContainer_init_def Field_init_def call_func_def container_func_def
        py_tuple_def range_example_items fresh_id_def new_object_def set_default_def
        empty_world_def)
qed

section \<open>Lemmas about \<^verbatim>\<open>int\<close>\<close>

lemma toward_zero_of_int: "toward_zero (of_int z) = z"
  by (simp add: toward_zero_def)

lemma trunc_dyadic_toward_zero: "trunc_dyadic m e = toward_zero (float_value m e)"
proof (cases "0 \<le> e")
  case True
  have "float_value m e = of_int (m * 2 ^ nat e)" using True by (simp add: float_value_def)
  then show ?thesis using True by (simp only: toward_zero_of_int trunc_dyadic_def if_True)
next
  case False
  define k where "k = nat (- e)"
  have fv: "float_value m e = of_int m / of_int (2 ^ k)"
    using False by (simp add: float_value_def k_def)
  show ?thesis
  proof (cases "0 \<le> m")
    case True
    then have "0 \<le> float_value m e" by (simp add: fv)
    then have "toward_zero (float_value m e) = \<lfloor>of_int m / of_int (2 ^ k) :: real\<rfloor>"
      by (simp add: toward_zero_def fv)
    also have "\<dots> = m div 2 ^ k" by (rule floor_divide_of_int_eq)
    finally show ?thesis using True False by (simp add: trunc_dyadic_def k_def)
  next
    case m: False
    then have "float_value m e < 0" by (simp add: fv divide_neg_pos)
    then have "toward_zero (float_value m e) = \<lceil>of_int m / of_int (2 ^ k) :: real\<rceil>"
      by (simp add: toward_zero_def fv)
    also have "\<dots> = - \<lfloor>of_int (- m) / of_int (2 ^ k) :: real\<rfloor>"
      by (simp add: ceiling_def)
    also have "\<lfloor>of_int (- m) / of_int (2 ^ k) :: real\<rfloor> = (- m) div 2 ^ k"
      by (rule floor_divide_of_int_eq)
    finally show ?thesis using m False by (simp add: trunc_dyadic_def k_def)
  qed
qed

lemma toward_zero_minus: "toward_zero (- r) = - toward_zero r"
  by (auto simp: toward_zero_def ceiling_def)

lemma trunc_decimal_toward_zero: "trunc_decimal sg c e = toward_zero (decimal_value sg c e)"
proof -
  define p :: real where
    "p = (if 0 \<le> e then of_nat c * 10 ^ nat e else of_nat c / 10 ^ nat (- e))"
  define n :: int where
    "n = (if 0 \<le> e then int c * 10 ^ nat e else int c div 10 ^ nat (- e))"
  have pn: "toward_zero p = n"
  proof (cases "0 \<le> e")
    case True
    then have "p = of_int (int c * 10 ^ nat e)" by (simp add: p_def)
    then show ?thesis using True by (simp only: toward_zero_of_int n_def if_True)
  next
    case False
    define k where "k = nat (- e)"
    have p: "p = of_int (int c) / of_int (10 ^ k)" using False by (simp add: p_def k_def)
    then have "0 \<le> p" by simp
    then have "toward_zero p = \<lfloor>of_int (int c) / of_int (10 ^ k) :: real\<rfloor>"
      by (simp add: toward_zero_def p)
    also have "\<dots> = int c div 10 ^ k" by (rule floor_divide_of_int_eq)
    finally show ?thesis using False by (simp add: n_def k_def)
  qed
  show ?thesis
  proof (cases sg)
    case True
    then have "decimal_value sg c e = - p" by (simp add: decimal_value_def p_def)
    then have "toward_zero (decimal_value sg c e) = - n" by (simp add: toward_zero_minus pn)
    then show ?thesis using True by (simp add: trunc_decimal_def n_def Let_def)
  next
    case False
    then have "decimal_value sg c e = p" by (simp add: decimal_value_def p_def)
    then show ?thesis using False pn by (simp add: trunc_decimal_def n_def Let_def)
  qed
qed

lemma dec_value_Nil: "dec_value [] = 0"
  by (simp add: dec_value_def)

lemma dec_value_Cons: "dec_value (c # cs) = digit_val c * 10 ^ length cs + dec_value cs"
  by (simp add: dec_value_def sum.lessThan_Suc_shift del: sum.lessThan_Suc)

lemma dec_value_append:
  "dec_value (xs @ ys) = dec_value xs * 10 ^ length ys + dec_value ys"
  by (induction xs) (simp_all add: dec_value_Nil dec_value_Cons power_add algebra_simps)

lemma parse_digits_group:
  "list_all is_digit g \<Longrightarrow> g \<noteq> [] \<Longrightarrow>
   parse_digits b acc (g @ rest) = parse_digits True (acc * 10 ^ length g + dec_value g) rest"
proof (induction g arbitrary: b acc)
  case Nil
  then show ?case by simp
next
  case (Cons c cs)
  show ?case
  proof (cases "cs = []")
    case True
    with Cons.prems show ?thesis by (simp add: dec_value_Cons dec_value_Nil mult.commute)
  next
    case False
    with Cons.prems have "parse_digits True (10 * acc + digit_val c) (cs @ rest) =
        parse_digits True ((10 * acc + digit_val c) * 10 ^ length cs + dec_value cs) rest"
      by (intro Cons.IH) simp_all
    with Cons.prems show ?thesis by (simp add: dec_value_Cons algebra_simps)
  qed
qed

lemma underscore_not_digit: "\<not> is_digit CHR ''_''"
  by (simp add: is_digit_def)

lemma parse_digits_groups:
  "digit_groups gs \<Longrightarrow>
   parse_digits b acc (join_groups gs) =
     Some (acc * 10 ^ length (concat gs) + dec_value (concat gs))"
proof (induction gs arbitrary: b acc rule: join_groups.induct)
  case 1
  then show ?case by (simp add: digit_groups_def)
next
  case (2 g)
  then have g: "list_all is_digit g" "g \<noteq> []" by (simp_all add: digit_groups_def)
  from parse_digits_group [OF g, of b acc "[]"] show ?case by simp
next
  case (3 g h gs)
  then have g: "list_all is_digit g" "g \<noteq> []" and rest: "digit_groups (h # gs)"
    by (simp_all add: digit_groups_def)
  define acc' where "acc' = acc * 10 ^ length g + dec_value g"
  have "parse_digits b acc (join_groups (g # h # gs)) =
          parse_digits True acc' (CHR ''_'' # join_groups (h # gs))"
    using parse_digits_group [OF g, of b acc "CHR ''_'' # join_groups (h # gs)"]
    by (simp add: acc'_def)
  also have "\<dots> = parse_digits False acc' (join_groups (h # gs))"
    by (simp add: underscore_not_digit)
  also have "\<dots> = Some (acc' * 10 ^ length (concat (h # gs)) + dec_value (concat (h # gs)))"
    by (rule "3.IH" [OF rest])
  also have "acc' * 10 ^ length (concat (h # gs)) + dec_value (concat (h # gs)) =
          acc * 10 ^ length (concat (g # h # gs)) + dec_value (concat (g # h # gs))"
    using dec_value_append [of g "concat (h # gs)"]
    by (simp add: acc'_def power_add algebra_simps)
  finally show ?case .
qed

lemma join_groups_ends:
  "digit_groups gs \<Longrightarrow>
   join_groups gs \<noteq> [] \<and> is_digit (hd (join_groups gs)) \<and> is_digit (last (join_groups gs))"
proof (induction gs rule: join_groups.induct)
  case 1
  then show ?case by (simp add: digit_groups_def)
next
  case (2 g)
  then show ?case by (simp add: digit_groups_def list_all_iff)
next
  case (3 g h gs)
  then have g: "list_all is_digit g" "g \<noteq> []" and rest: "digit_groups (h # gs)"
    by (simp_all add: digit_groups_def)
  from "3.IH" [OF rest] g show ?case by (simp add: list_all_iff)
qed

lemma join_groups_digits:
  "digit_groups gs \<Longrightarrow> filter is_digit (join_groups gs) = concat gs"
proof (induction gs rule: join_groups.induct)
  case 1
  then show ?case by simp
next
  case (2 g)
  then have "list_all is_digit g" by (simp add: digit_groups_def)
  then show ?case by (simp add: list_all_iff)
next
  case (3 g h gs)
  then have g: "list_all is_digit g" and rest: "digit_groups (h # gs)"
    by (simp_all add: digit_groups_def)
  from g have "filter is_digit g = g" by (simp add: list_all_iff)
  with "3.IH" [OF rest] show ?case by (simp add: underscore_not_digit)
qed

lemma digit_groups_single: "list_all is_digit ds \<Longrightarrow> ds \<noteq> [] \<Longrightarrow> digit_groups [ds]"
  by (simp add: digit_groups_def)

lemma strip_body:
  assumes "list_all sp l" and "list_all sp r" and "body \<noteq> []"
    and "\<not> sp (hd body)" and "\<not> sp (last body)"
  shows "strip sp (l @ body @ r) = body"
proof -
  from assms(3,4) have d1: "dropWhile sp body = body"
    by (cases body) simp_all
  from assms(3,5) have d2: "dropWhile sp (rev body) = rev body"
    by (cases body rule: rev_cases) simp_all
  have "dropWhile sp (l @ body @ r) = dropWhile sp (body @ r)"
    using assms(1) by (intro dropWhile_append2) (simp add: list_all_iff)
  also have "\<dots> = body @ r" using assms(3,4) by (cases body) simp_all
  finally have a: "dropWhile sp (l @ body @ r) = body @ r" .
  have "dropWhile sp (rev (body @ r)) = dropWhile sp (rev r @ rev body)" by simp
  also have "\<dots> = dropWhile sp (rev body)"
    using assms(2) by (intro dropWhile_append2) (simp add: list_all_iff)
  finally have "dropWhile sp (rev (body @ r)) = rev body" using d2 by simp
  with a show ?thesis by (simp add: strip_def)
qed

lemma digit_not_space: "is_digit c \<Longrightarrow> \<not> is_space c"
  by (auto simp: is_digit_def is_space_def Let_def)

lemma digits_hd_last:
  assumes "list_all is_digit ds" and "ds \<noteq> []"
  shows "is_digit (hd ds) \<and> is_digit (last ds)"
  using assms by (simp add: list_all_iff)

lemma sign_chars:
  "\<not> is_space CHR ''+''" "\<not> is_space CHR ''-''" "\<not> is_digit CHR ''+''" "\<not> is_digit CHR ''-''"
  by (simp_all add: is_space_def is_digit_def)

lemma digit_not_sign: "is_digit c \<Longrightarrow> c \<noteq> CHR ''+'' \<and> c \<noteq> CHR ''-''"
  using sign_chars by auto

lemma parse_int_plain:
  assumes "digit_groups gs" and "list_all is_space l" and "list_all is_space r"
  shows "parse_int is_space (l @ join_groups gs @ r) = Some (dec_value (concat gs))"
proof -
  from join_groups_ends [OF assms(1)] have
    ne: "join_groups gs \<noteq> []" and hl: "is_digit (hd (join_groups gs))"
      "is_digit (last (join_groups gs))" by simp_all
  then have "strip is_space (l @ join_groups gs @ r) = join_groups gs"
    using assms by (intro strip_body) (simp_all add: digit_not_space)
  moreover obtain c cs where ds: "join_groups gs = c # cs" using ne by (cases "join_groups gs") auto
  moreover have "c \<noteq> CHR ''+''" "c \<noteq> CHR ''-''" using hl(1) ds digit_not_sign by auto
  ultimately show ?thesis
    using parse_digits_groups [OF assms(1), of False 0] by (simp add: parse_int_def)
qed

lemma parse_int_signed:
  assumes "digit_groups gs" and "list_all is_space l" and "list_all is_space r"
    and "sg = CHR ''+'' \<or> sg = CHR ''-''"
  shows "parse_int is_space (l @ (sg # join_groups gs) @ r) =
           Some (if sg = CHR ''-'' then - dec_value (concat gs) else dec_value (concat gs))"
proof -
  from join_groups_ends [OF assms(1)] have
    ne: "join_groups gs \<noteq> []" and hl: "is_digit (last (join_groups gs))" by simp_all
  have "\<not> is_space sg" using assms(4) sign_chars by auto
  then have "strip is_space (l @ (sg # join_groups gs) @ r) = sg # join_groups gs"
    using assms ne hl by (intro strip_body) (simp_all add: digit_not_space)
  then show ?thesis
    using parse_digits_groups [OF assms(1), of False 0] assms(4) by (auto simp: parse_int_def)
qed

lemma spaces_no_digits: "list_all is_space l \<Longrightarrow> filter is_digit l = []"
  by (induction l) (auto simp: digit_not_space)

lemma literal_plain:
  assumes "digit_groups gs" and "list_all is_space l" and "list_all is_space r"
    and "within_limit env (length (concat gs))"
  shows "int_of_literal env is_space (l @ join_groups gs @ r) = Inr (dec_value (concat gs))"
  using parse_int_plain [OF assms(1-3)] assms(4)
  by (auto simp: int_of_literal_def Let_def within_limit_def spaces_no_digits [OF assms(2)]
      spaces_no_digits [OF assms(3)] join_groups_digits [OF assms(1)])

lemma literal_signed:
  assumes "digit_groups gs" and "list_all is_space l" and "list_all is_space r"
    and "sg = CHR ''+'' \<or> sg = CHR ''-''"
    and "within_limit env (length (concat gs))"
  shows "int_of_literal env is_space (l @ (sg # join_groups gs) @ r) =
           Inr (if sg = CHR ''-'' then - dec_value (concat gs) else dec_value (concat gs))"
proof -
  have "\<not> is_digit sg" using assms(4) sign_chars by auto
  then show ?thesis
    using parse_int_signed [OF assms(1-4)] assms(5)
    by (auto simp: int_of_literal_def Let_def within_limit_def spaces_no_digits [OF assms(2)]
        spaces_no_digits [OF assms(3)] join_groups_digits [OF assms(1)])
qed

text \<open>Text that is no integer literal, or too long a one, raises \<^verbatim>\<open>ValueError\<close>.\<close>

lemma literal_value_error:
  "int_of_literal env sp t = Inl e \<Longrightarrow> e = ValueError"
  by (auto simp: int_of_literal_def Let_def split: option.splits if_splits)

lemma py_int_unsupported: "\<not> number_or_text x \<Longrightarrow> py_int env s x = Inl TypeError"
  by (cases x) (simp_all add: number_or_text_def py_int_def)

section \<open>Lemmas about building containers from iterables\<close>

lemma py_list_iter:
  "py_items env s x = Inr xs \<Longrightarrow>
   py_list env s x = Inr (VRef (length (heap s)), s\<lparr>heap := heap s @ [OList xs]\<rparr>)"
  by (simp add: py_list_def alloc_def)

lemma py_tuple_iter:
  "py_items env s x = Inr xs \<Longrightarrow> \<exists>i s'. py_tuple env s x = Inr (VTuple i xs, s')"
  by (cases x) (auto simp: py_tuple_def py_items_def hint_error_def py_iter_def fresh_id_def)

lemma collect_members_iter:
  "members s x = None \<Longrightarrow> py_iter env s x = Inr xs \<Longrightarrow>
   collect_members env s x =
     (if \<not> list_all hashable xs then Inl TypeError
      else (case room_error env x of Some e \<Rightarrow> Inl e | None \<Rightarrow> Inr (set_items xs)))"
  by (simp add: collect_members_def)

lemma collect_members_set: "members s x = Some ys \<Longrightarrow> collect_members env s x = Inr ys"
  by (simp add: collect_members_def)

lemma py_set_members:
  "collect_members env s x = Inr ys \<Longrightarrow>
   py_set env s x = Inr (VRef (length (heap s)), s\<lparr>heap := heap s @ [OSet ys]\<rparr>)"
  by (simp add: py_set_def alloc_def)

lemma py_set_error: "collect_members env s x = Inl e \<Longrightarrow> py_set env s x = Inl e"
  by (simp add: py_set_def)

lemma py_frozenset_members:
  "collect_members env s x = Inr ys \<Longrightarrow> \<forall>i zs. x \<noteq> VFrozenSet i zs \<Longrightarrow>
   py_frozenset env s x = Inr (VFrozenSet (next_id s) ys, s\<lparr>next_id := Suc (next_id s)\<rparr>)"
  by (cases x) (simp_all add: py_frozenset_def fresh_id_def)

lemma py_frozenset_error:
  "collect_members env s x = Inl e \<Longrightarrow> \<forall>i zs. x \<noteq> VFrozenSet i zs \<Longrightarrow>
   py_frozenset env s x = Inl e"
  by (cases x) (simp_all add: py_frozenset_def)

lemma members_not_frozenset: "members s x = None \<Longrightarrow> \<forall>i zs. x \<noteq> VFrozenSet i zs"
  by (auto simp: members_def)

text \<open>A set yields its members, all of them and nothing else, in some order.\<close>

lemma iter_set_members:
  "set (iter_set env ys) = set ys \<and> length (iter_set env ys) = length ys \<and>
   (distinct ys \<longrightarrow> distinct (iter_set env ys))"
  by (simp add: iter_set_def)

lemma py_iter_members: "members s x = Some ys \<Longrightarrow> py_iter env s x = Inr (iter_set env ys)"
  by (cases x) (auto simp: members_def py_iter_def split: option.splits pyobj.splits)

lemma set_foldl_set_add_mono: "set acc \<subseteq> set (foldl set_add acc xs)"
proof (induction xs arbitrary: acc)
  case Nil
  show ?case by simp
next
  case (Cons x xs)
  have "set acc \<subseteq> set (set_add acc x)" by (auto simp: set_add_def)
  also have "\<dots> \<subseteq> set (foldl set_add (set_add acc x) xs)" by (rule Cons.IH)
  finally show ?case by simp
qed

lemma foldl_set_add_covers:
  "x \<in> set xs \<Longrightarrow>
   x \<in> set (foldl set_add acc xs) \<or> list_ex (\<lambda>y. key_eq y x) (foldl set_add acc xs)"
proof (induction xs arbitrary: acc)
  case Nil
  then show ?case by simp
next
  case (Cons z zs)
  show ?case
  proof (cases "x = z")
    case True
    have m: "set (set_add acc z) \<subseteq> set (foldl set_add (set_add acc z) zs)"
      by (rule set_foldl_set_add_mono)
    show ?thesis
    proof (cases "list_ex (\<lambda>y. key_eq y z) acc")
      case ex: True
      then have "list_ex (\<lambda>y. key_eq y z) (set_add acc z)" by (simp add: set_add_def)
      with m have "list_ex (\<lambda>y. key_eq y z) (foldl set_add (set_add acc z) zs)"
        by (auto simp: list_ex_iff)
      with True show ?thesis by simp
    next
      case False
      then have "z \<in> set (set_add acc z)" by (simp add: set_add_def)
      with m True show ?thesis by auto
    qed
  next
    case False
    with Cons.prems have "x \<in> set zs" by simp
    from Cons.IH [OF this, of "set_add acc z"] show ?thesis by simp
  qed
qed

lemma set_items_covers:
  "x \<in> set xs \<Longrightarrow> x \<in> set (set_items xs) \<or> list_ex (\<lambda>y. key_eq y x) (set_items xs)"
  unfolding set_items_def by (rule foldl_set_add_covers)

lemma nodup_distinct:
  "nodup_from acc ys \<Longrightarrow> (\<forall>y\<in>set ys. key_eq y y) \<Longrightarrow> distinct ys \<and> set acc \<inter> set ys = {}"
proof (induction ys arbitrary: acc)
  case Nil
  show ?case by simp
next
  case (Cons y ys)
  from Cons.prems have n: "\<not> list_ex (\<lambda>z. key_eq z y) acc" "nodup_from (acc @ [y]) ys"
    and r: "key_eq y y" "\<forall>y\<in>set ys. key_eq y y"
    by simp_all
  from Cons.IH [OF n(2) r(2)] have "distinct ys" "set (acc @ [y]) \<inter> set ys = {}" by simp_all
  moreover from n(1) r(1) have "y \<notin> set acc" by (auto simp: list_ex_iff)
  ultimately show ?case by auto
qed

text \<open>Where key equality is plain equality, a set holds each element once.\<close>

lemma set_items_plain:
  assumes "\<forall>x\<in>set xs. \<forall>y\<in>set xs. key_eq x y = (x = y)"
  shows "set (set_items xs) = set xs \<and> distinct (set_items xs)"
proof
  show "set (set_items xs) = set xs"
  proof
    show "set (set_items xs) \<subseteq> set xs" by (rule set_set_items)
    show "set xs \<subseteq> set (set_items xs)"
    proof
      fix x assume x: "x \<in> set xs"
      from set_items_covers [OF x] show "x \<in> set (set_items xs)"
      proof
        assume "list_ex (\<lambda>y. key_eq y x) (set_items xs)"
        then obtain y where "y \<in> set (set_items xs)" "key_eq y x" by (auto simp: list_ex_iff)
        moreover from this set_set_items [of xs] have "y \<in> set xs" by auto
        ultimately show ?thesis using assms x by auto
      qed
    qed
  qed
  have "\<forall>y\<in>set (set_items xs). key_eq y y"
    using assms set_set_items [of xs] by auto
  from nodup_distinct [OF nodup_set_items this] show "distinct (set_items xs)" by simp
qed

lemma key_eq_chars: "\<forall>x\<in>set (chars_of t). \<forall>y\<in>set (chars_of t). key_eq x y = (x = y)"
  by (auto simp: chars_of_def atom_eq_def as_rat_def as_infinity_def)

lemma hashable_chars: "list_all hashable (chars_of t)"
  by (simp add: chars_of_def list_all_iff)

lemma py_iter_text: "py_iter env s (VStr t) = Inr (chars_of t)"
  by (simp add: py_iter_def chars_of_def)

lemma members_text: "members s (VStr t) = None"
  by (simp add: members_def)

lemma no_error_text: "hint_error env (VStr t) = None" "room_error env (VStr t) = None"
  by (simp_all add: hint_error_def room_error_def)

lemma keys_dict_set: "map fst (dict_set d k v) = set_add (map fst d) k"
  by (induction d) (auto simp: set_add_def)

lemma keys_dict_assign: "map fst (dict_assign d kvs) = foldl set_add (map fst d) (map fst kvs)"
  unfolding dict_assign_def
  by (induction kvs arbitrary: d) (simp_all add: keys_dict_set)

lemma dict_set_new: "\<not> list_ex (\<lambda>y. key_eq y k) (map fst d) \<Longrightarrow> dict_set d k v = d @ [(k, v)]"
  by (induction d) auto

lemma dict_assign_nodup:
  "nodup_from (map fst d) (map fst kvs) \<Longrightarrow> dict_assign d kvs = d @ kvs"
  unfolding dict_assign_def
  by (induction kvs arbitrary: d) (simp_all add: dict_set_new)

lemma dict_update_pairs:
  assumes "list_all2 (\<lambda>it kv. py_items env s it = Inr [fst kv, snd kv]) items kvs"
    and "list_all hashable (map fst kvs)"
  shows "dict_update env s d items = Inr (dict_assign d kvs)"
  using assms
proof (induction items kvs arbitrary: d rule: list_all2_induct)
  case Nil
  show ?case by (simp add: dict_assign_def)
next
  case (Cons it items kv kvs)
  from Cons.prems have "hashable (fst kv)" "list_all hashable (map fst kvs)" by simp_all
  with Cons.hyps(1) Cons.IH [of "dict_set d (fst kv) (snd kv)"]
  show ?case by (simp add: dict_assign_def)
qed

lemma py_dict_pairs:
  assumes "\<not> is_dict s x" and "py_iter env s x = Inr items"
    and "list_all2 (\<lambda>it kv. py_items env s it = Inr [fst kv, snd kv]) items kvs"
    and "list_all hashable (map fst kvs)"
  shows "py_dict env s x =
           Inr (VRef (length (heap s)), s\<lparr>heap := heap s @ [ODict (dict_assign [] kvs)]\<rparr>)"
  using assms(1,2) dict_update_pairs [OF assms(3,4), of "[]"]
  by (simp add: py_dict_def alloc_def)

lemma py_dict_copy:
  "is_dict s x \<Longrightarrow>
   py_dict env s x =
     Inr (VRef (length (heap s)), s\<lparr>heap := heap s @ [ODict (dict_items s x)]\<rparr>)"
  by (simp add: py_dict_def alloc_def)

lemma py_dict_text:
  "py_dict env s (VStr t) =
     (if t = [] then Inr (VRef (length (heap s)), s\<lparr>heap := heap s @ [ODict []]\<rparr>)
      else Inl ValueError)"
  by (cases t)
     (simp_all add: py_dict_def is_dict_def py_iter_def py_items_def hint_error_def alloc_def)

section \<open>Lemmas about the results of the scalar coercions\<close>

lemma py_int_shape: "py_int env s x = Inr (y, s1) \<Longrightarrow> \<exists>n. y = VInt n"
  by (cases x) (auto simp: py_int_def split: pyfloat.splits pydecimal.splits sum.splits)

lemma py_float_shape: "py_float env s x = Inr (y, s1) \<Longrightarrow> \<exists>f. y = VFloat f"
  by (cases x) (auto simp: py_float_def split: sum.splits)

lemma py_decimal_shape: "py_decimal env s x = Inr (y, s1) \<Longrightarrow> \<exists>d. y = VDecimal d"
  by (cases x) (auto simp: py_decimal_def split: sum.splits)

lemma py_bool_shape: "py_bool s x = Inr (y, s1) \<Longrightarrow> \<exists>b. y = VBool b"
  by (cases x) (auto simp: py_bool_def split: option.splits pyobj.splits)

lemma py_bytes_shape: "py_bytes env s x = Inr (y, s1) \<Longrightarrow> \<exists>bs. y = VBytes bs"
  by (cases x) (auto simp: py_bytes_def split: sum.splits)

lemma String_func_shape: "String_func env codec s x = Inr (y, s1) \<Longrightarrow> \<exists>t. y = VStr t"
  by (cases x)
     (auto simp: String_func_def py_str_decode_def py_str_def split: sum.splits if_splits)

lemma simple_func_shape:
  assumes "simple_func env k s x = Inr (y, s1)" and "k \<noteq> SimpleField"
  shows "(\<exists>n. y = VInt n) \<or> (\<exists>f. y = VFloat f) \<or> (\<exists>d. y = VDecimal d) \<or> (\<exists>b. y = VBool b) \<or>
         (\<exists>bs. y = VBytes bs)"
proof (cases k)
  case SimpleField
  with assms(2) show ?thesis by simp
next
  case Integer
  with assms(1) have "py_int env s x = Inr (y, s1)" by (simp add: simple_func_def)
  from py_int_shape [OF this] show ?thesis by blast
next
  case Float
  with assms(1) have "py_float env s x = Inr (y, s1)" by (simp add: simple_func_def)
  from py_float_shape [OF this] show ?thesis by blast
next
  case Decimal
  with assms(1) have "py_decimal env s x = Inr (y, s1)" by (simp add: simple_func_def)
  from py_decimal_shape [OF this] show ?thesis by blast
next
  case Boolean
  with assms(1) have "py_bool s x = Inr (y, s1)" by (simp add: simple_func_def)
  from py_bool_shape [OF this] show ?thesis by blast
next
  case Bytes
  with assms(1) have "py_bytes env s x = Inr (y, s1)" by (simp add: simple_func_def)
  from py_bytes_shape [OF this] show ?thesis by blast
next
  case Binary
  with assms(1) have "py_bytes env s x = Inr (y, s1)" by (simp add: simple_func_def)
  from py_bytes_shape [OF this] show ?thesis by blast
qed

lemma simple_func_again:
  assumes "simple_func env k s x = Inr (y, s1)"
  shows "simple_func env k s2 y = Inr (y, s2)"
proof (cases k)
  case SimpleField
  then show ?thesis by (simp add: simple_func_def)
next
  case Integer
  with assms have "py_int env s x = Inr (y, s1)" by (simp add: simple_func_def)
  from py_int_shape [OF this] Integer show ?thesis by (auto simp: simple_func_def py_int_def)
next
  case Float
  with assms have "py_float env s x = Inr (y, s1)" by (simp add: simple_func_def)
  from py_float_shape [OF this] Float show ?thesis by (auto simp: simple_func_def py_float_def)
next
  case Decimal
  with assms have "py_decimal env s x = Inr (y, s1)" by (simp add: simple_func_def)
  from py_decimal_shape [OF this] Decimal show ?thesis
    by (auto simp: simple_func_def py_decimal_def)
next
  case Boolean
  with assms have "py_bool s x = Inr (y, s1)" by (simp add: simple_func_def)
  from py_bool_shape [OF this] Boolean show ?thesis by (auto simp: simple_func_def py_bool_def)
next
  case Bytes
  with assms have "py_bytes env s x = Inr (y, s1)" by (simp add: simple_func_def)
  from py_bytes_shape [OF this] Bytes show ?thesis by (auto simp: simple_func_def py_bytes_def)
next
  case Binary
  with assms have "py_bytes env s x = Inr (y, s1)" by (simp add: simple_func_def)
  from py_bytes_shape [OF this] Binary show ?thesis by (auto simp: simple_func_def py_bytes_def)
qed

text \<open>A number, a byte string or a text that is not a NaN equals itself.\<close>

lemma atom_eq_refl_float: "\<not> is_nan (VFloat f) \<Longrightarrow> atom_eq (VFloat f) (VFloat f)"
  by (cases f) (simp_all add: atom_eq_def as_rat_def as_infinity_def is_nan_def)

lemma atom_eq_refl_decimal: "\<not> is_nan (VDecimal d) \<Longrightarrow> atom_eq (VDecimal d) (VDecimal d)"
  by (cases d) (simp_all add: atom_eq_def as_rat_def as_infinity_def is_nan_def)

lemma atom_eq_refl_plain:
  "atom_eq (VInt n) (VInt n)" "atom_eq (VBool b) (VBool b)" "atom_eq (VBytes bs) (VBytes bs)"
  "atom_eq (VStr t) (VStr t)"
  by (simp_all add: atom_eq_def as_rat_def as_infinity_def)

section \<open>The claims\<close>

subsection \<open>C1: reads of an unset container attribute\<close>

text \<open>
  C1, as the claim states it, fails for the tuple field and the frozenset field: two
  reads of the unset attribute return one and the same object. \<^verbatim>\<open>tuple(t)\<close> returns the
  tuple \<open>t\<close> itself, and the field has stored the tuple that \<^verbatim>\<open>tuple\<close> built at declaration.
\<close>

theorem tuple_reads_identical:
  "read_twice example_env Tuple (VRange 665 668 1) empty_world =
     Inr (VTuple 0 [VInt 665, VInt 666, VInt 667], VTuple 0 [VInt 665, VInt 666, VInt 667]) \<and>
   same_object (VTuple 0 [VInt 665, VInt 666, VInt 667]) (VTuple 0 [VInt 665, VInt 666, VInt 667])"
  by code_simp

text \<open>
  C1, amended. The field object is shared by all instances and \<^verbatim>\<open>default\<close> takes no
  instance, so reads on two instances and two reads on one instance are two reads of
  \<^verbatim>\<open>default\<close> of the same field.

  For a list, set or dict field constructed with a default: the field has stored an
  object \<open>ob0\<close> at an address \<open>a0\<close>. A read returns a new object at an address \<open>a1\<close>
  different from \<open>a0\<close>, with the contents \<open>ob0\<close>. After any mutation of the object at
  \<open>a1\<close> (it is overwritten with an arbitrary \<open>ob'\<close>), the next read returns an object at
  a third address \<open>a2\<close>, again with the contents \<open>ob0\<close>; the stored default at \<open>a0\<close> is
  still \<open>ob0\<close>, and only the object at \<open>a1\<close> shows the mutation.

  For a tuple or frozenset field every read returns the stored object itself and leaves
  the store as it was; that object is immutable.
\<close>

theorem unset_reads_fresh_or_same:
  assumes "d \<noteq> VNoDefault" and "StandartContainer_init env k d w = Inr (fld, w1)"
  shows "(mutable_kind k \<longrightarrow>
           (\<exists>a0 ob0 a1 w2.
              underscore_default fld = VRef a0 \<and> lookup (mem w1) a0 = Some ob0 \<and>
              get_default fld w1 = Inr (VRef a1, w2) \<and> a1 \<noteq> a0 \<and>
              lookup (mem w2) a1 = Some ob0 \<and>
              (\<forall>ob'. \<exists>a2 w3.
                 get_default fld (w2\<lparr>mem := mutate (mem w2) a1 ob'\<rparr>) = Inr (VRef a2, w3) \<and>
                 a2 \<noteq> a1 \<and> a2 \<noteq> a0 \<and>
                 lookup (mem w3) a2 = Some ob0 \<and> lookup (mem w3) a0 = Some ob0 \<and>
                 lookup (mem w3) a1 = Some ob'))) \<and>
         (\<not> mutable_kind k \<longrightarrow>
           (\<forall>w'. \<exists>w''. get_default fld w' = Inr (underscore_default fld, w'') \<and> mem w'' = mem w' \<and>
                 same_object (underscore_default fld) (underscore_default fld)))"
proof (intro conjI impI)
  from container_init [OF assms] obtain v where
    v: "container_func env k (mem w) d = Inr (v, mem w1)" "underscore_default fld = v"
       "\<forall>w'. get_default fld w' = call_func fld v w'" "func fld = container_func env k"
    by blast
  {
    assume mk: "mutable_kind k"
    from mutable_built [OF mk v(1)] obtain ob0 where
      ob0: "built_by k ob0" "v = VRef (length (heap (mem w)))"
           "mem w1 = (mem w)\<lparr>heap := heap (mem w) @ [ob0]\<rparr>"
      by blast
    define a0 where "a0 = length (heap (mem w))"
    define a1 where "a1 = length (heap (mem w1))"
    define w2 where
      "w2 = \<lparr>mem = (mem w1)\<lparr>heap := heap (mem w1) @ [ob0]\<rparr>, calls = calls w1 @ [VRef a0]\<rparr>"
    have l0: "lookup (mem w1) a0 = Some ob0"
      using ob0(3) by (simp add: a0_def lookup_def)
    have g: "\<And>w'. get_default fld w' = call_func fld (VRef a0) w'"
      using v(3) ob0(2) by (simp add: a0_def)
    have r1: "get_default fld w1 = Inr (VRef a1, w2)"
      unfolding a1_def w2_def by (rule read_mutable [OF mk ob0(1) v(4) g l0])
    have a0lt: "a0 < a1" using ob0(3) by (simp add: a0_def a1_def)
    have l1: "lookup (mem w2) a1 = Some ob0" by (simp add: w2_def a1_def lookup_def)
    have second: "\<exists>a2 w3.
                 get_default fld (w2\<lparr>mem := mutate (mem w2) a1 ob'\<rparr>) = Inr (VRef a2, w3) \<and>
                 a2 \<noteq> a1 \<and> a2 \<noteq> a0 \<and>
                 lookup (mem w3) a2 = Some ob0 \<and> lookup (mem w3) a0 = Some ob0 \<and>
                 lookup (mem w3) a1 = Some ob'" for ob'
    proof -
      define wm where "wm = w2\<lparr>mem := mutate (mem w2) a1 ob'\<rparr>"
      have lm: "length (heap (mem wm)) = Suc a1"
        by (simp add: wm_def w2_def mutate_def a1_def)
      have lm0: "lookup (mem wm) a0 = Some ob0"
        using ob0(3) by (simp add: wm_def w2_def mutate_def lookup_def a0_def a1_def nth_append)
      have lm1: "lookup (mem wm) a1 = Some ob'"
        by (simp add: wm_def w2_def mutate_def lookup_def a1_def)
      define w3 where
        "w3 = \<lparr>mem = (mem wm)\<lparr>heap := heap (mem wm) @ [ob0]\<rparr>, calls = calls wm @ [VRef a0]\<rparr>"
      have r2: "get_default fld wm = Inr (VRef (Suc a1), w3)"
        using read_mutable [OF mk ob0(1) v(4) g lm0] by (simp add: w3_def lm)
      have "lookup (mem w3) (Suc a1) = Some ob0"
        using lookup_append_new [of "mem wm" ob0] by (simp add: w3_def lm)
      moreover have "lookup (mem w3) a0 = Some ob0"
        using lm0 a0lt lm by (simp add: w3_def lookup_def nth_append)
      moreover have "lookup (mem w3) a1 = Some ob'"
        using lm1 lm by (simp add: w3_def lookup_def nth_append)
      ultimately show ?thesis using r2 a0lt unfolding wm_def by auto
    qed
    from ob0(2) v(2) have "underscore_default fld = VRef a0" by (simp add: a0_def)
    with l0 r1 a0lt l1 second
    show "\<exists>a0 ob0 a1 w2.
              underscore_default fld = VRef a0 \<and> lookup (mem w1) a0 = Some ob0 \<and>
              get_default fld w1 = Inr (VRef a1, w2) \<and> a1 \<noteq> a0 \<and>
              lookup (mem w2) a1 = Some ob0 \<and>
              (\<forall>ob'. \<exists>a2 w3.
                 get_default fld (w2\<lparr>mem := mutate (mem w2) a1 ob'\<rparr>) = Inr (VRef a2, w3) \<and>
                 a2 \<noteq> a1 \<and> a2 \<noteq> a0 \<and>
                 lookup (mem w3) a2 = Some ob0 \<and> lookup (mem w3) a0 = Some ob0 \<and>
                 lookup (mem w3) a1 = Some ob')"
      by blast
  }
  {
    assume nk: "\<not> mutable_kind k"
    from immutable_result [OF nk v(1)] have same: "same_object v v"
      by (auto simp: same_object_def obj_id_def)
    have "get_default fld w' = Inr (v, \<lparr>mem = mem w', calls = calls w' @ [v]\<rparr>)" for w'
      using v(3,4) immutable_same [OF nk v(1), of "mem w'"] by (simp add: call_func_def)
    with same v(2)
    show "\<forall>w'. \<exists>w''. get_default fld w' = Inr (underscore_default fld, w'') \<and> mem w'' = mem w' \<and>
                 same_object (underscore_default fld) (underscore_default fld)"
      by simp
  }
qed

text \<open>
  The list field declared with \<^verbatim>\<open>range(665, 668)\<close>: the stored list is at address 0, the
  first read returns a list at address 1, and after that list has been emptied the
  second read returns a list at address 2 that holds 665, 666, 667.
\<close>

theorem unset_reads_fresh_or_same_witness:
  "VRange 665 668 1 \<noteq> VNoDefault \<and>
   StandartContainer_init example_env List (VRange 665 668 1) empty_world =
     Inr (\<lparr>func = container_func example_env List, default_val = VNoDefault, underscore_default = VRef 0,
           enc = None, is_container = True\<rparr>,
          \<lparr>mem = \<lparr>heap = [OList [VInt 665, VInt 666, VInt 667]], next_id = 0\<rparr>,
           calls = [VRange 665 668 1]\<rparr>) \<and>
   mutable_kind List \<and>
   (\<exists>a1 w2 a2 w3.
      get_default \<lparr>func = container_func example_env List, default_val = VNoDefault, underscore_default = VRef 0,
           enc = None, is_container = True\<rparr>
          \<lparr>mem = \<lparr>heap = [OList [VInt 665, VInt 666, VInt 667]], next_id = 0\<rparr>,
           calls = [VRange 665 668 1]\<rparr> = Inr (VRef a1, w2) \<and>
      get_default \<lparr>func = container_func example_env List, default_val = VNoDefault, underscore_default = VRef 0,
           enc = None, is_container = True\<rparr>
          (w2\<lparr>mem := mutate (mem w2) a1 (OList [])\<rparr>) = Inr (VRef a2, w3) \<and>
      a2 \<noteq> a1 \<and> a1 \<noteq> 0 \<and> a2 \<noteq> 0 \<and>
      lookup (mem w3) a2 = Some (OList [VInt 665, VInt 666, VInt 667]) \<and>
      lookup (mem w3) 0 = Some (OList [VInt 665, VInt 666, VInt 667]) \<and>
      lookup (mem w3) a1 = Some (OList [])) \<and>
   \<not> mutable_kind Tuple \<and>
   (\<exists>w''. get_default \<lparr>func = container_func example_env Tuple, default_val = VNoDefault,
           underscore_default = VTuple 0 [VInt 665, VInt 666, VInt 667],
           enc = None, is_container = True\<rparr> empty_world
          = Inr (VTuple 0 [VInt 665, VInt 666, VInt 667], w'') \<and>
        mem w'' = mem empty_world)"
proof -
  let ?F = "\<lparr>func = container_func example_env List, default_val = VNoDefault, underscore_default = VRef 0,
           enc = None, is_container = True\<rparr>"
  let ?W = "\<lparr>mem = \<lparr>heap = [OList [VInt 665, VInt 666, VInt 667]], next_id = 0\<rparr>,
           calls = [VRange 665 668 1]\<rparr>"
  have c: "VRange 665 668 1 \<noteq> VNoDefault" by simp
  have m: "mutable_kind List" by (simp add: mutable_kind_def)
  from unset_reads_fresh_or_same [OF c list_field_example] m
  obtain a0 ob0 a1 w2 where
    h: "underscore_default ?F = VRef a0" "lookup (mem ?W) a0 = Some ob0"
       "get_default ?F ?W = Inr (VRef a1, w2)" "a1 \<noteq> a0"
       "\<forall>ob'. \<exists>a2 w3.
                 get_default ?F (w2\<lparr>mem := mutate (mem w2) a1 ob'\<rparr>) = Inr (VRef a2, w3) \<and>
                 a2 \<noteq> a1 \<and> a2 \<noteq> a0 \<and>
                 lookup (mem w3) a2 = Some ob0 \<and> lookup (mem w3) a0 = Some ob0 \<and>
                 lookup (mem w3) a1 = Some ob'"
    by blast
  from h(1) have a0: "a0 = 0" by simp
  from h(2) a0 have ob0: "ob0 = OList [VInt 665, VInt 666, VInt 667]"
    by (simp add: lookup_def)
  from h(5) obtain a2 w3 where
    "get_default ?F (w2\<lparr>mem := mutate (mem w2) a1 (OList [])\<rparr>) = Inr (VRef a2, w3)"
    "a2 \<noteq> a1" "a2 \<noteq> a0" "lookup (mem w3) a2 = Some ob0" "lookup (mem w3) a0 = Some ob0"
    "lookup (mem w3) a1 = Some (OList [])"
    by blast
  with h(3,4) a0 ob0 have first:
    "\<exists>a1 w2 a2 w3.
      get_default ?F ?W = Inr (VRef a1, w2) \<and>
      get_default ?F (w2\<lparr>mem := mutate (mem w2) a1 (OList [])\<rparr>) = Inr (VRef a2, w3) \<and>
      a2 \<noteq> a1 \<and> a1 \<noteq> 0 \<and> a2 \<noteq> 0 \<and>
      lookup (mem w3) a2 = Some (OList [VInt 665, VInt 666, VInt 667]) \<and>
      lookup (mem w3) 0 = Some (OList [VInt 665, VInt 666, VInt 667]) \<and>
      lookup (mem w3) a1 = Some (OList [])"
    by blast
  let ?T = "\<lparr>func = container_func example_env Tuple, default_val = VNoDefault,
           underscore_default = VTuple 0 [VInt 665, VInt 666, VInt 667],
           enc = None, is_container = True\<rparr>"
  have n: "\<not> mutable_kind Tuple" by (simp add: mutable_kind_def)
  from unset_reads_fresh_or_same [OF c tuple_field_example] n
  have "\<forall>w'. \<exists>w''. get_default ?T w' = Inr (underscore_default ?T, w'') \<and> mem w'' = mem w' \<and>
          same_object (underscore_default ?T) (underscore_default ?T)"
    by blast
  then have second:
    "\<exists>w''. get_default ?T empty_world = Inr (VTuple 0 [VInt 665, VInt 666, VInt 667], w'') \<and>
          mem w'' = mem empty_world"
    by auto
  from c m n list_field_example first second show ?thesis by blast
qed

subsection \<open>C2: what a container field stores\<close>

text \<open>
  C2, as the claim states it, fails: a container field does not store the default as it
  was supplied. The list field declared with \<^verbatim>\<open>range(665, 668)\<close> stores as \<^verbatim>\<open>_default\<close>
  the list object \<^verbatim>\<open>[665, 666, 667]\<close> that \<^verbatim>\<open>list\<close> built, not the range.
\<close>

theorem container_default_not_stored_raw:
  "declared_default example_env List (VRange 665 668 1) empty_world =
     Inr (VRef 0, Some (OList [VInt 665, VInt 666, VInt 667])) \<and>
   VRef 0 \<noteq> VRange 665 668 1"
  by code_simp

text \<open>
  C2, amended. For every container field constructed with a default \<open>d\<close> that is not the
  sentinel: the constructor has applied the coercion function to \<open>d\<close> once and stored the
  value \<open>v\<close> it returned, the coerced default, as \<^verbatim>\<open>_default\<close>; every read of \<^verbatim>\<open>default\<close>,
  in any world \<open>w'\<close>, applies the coercion function to that stored value \<open>v\<close> and returns
  what it produces.
\<close>

theorem container_default_stored_coerced:
  assumes "d \<noteq> VNoDefault" and "StandartContainer_init env k d w = Inr (fld, w1)"
  shows "\<exists>v. container_func env k (mem w) d = Inr (v, mem w1) \<and> calls w1 = calls w @ [d] \<and>
             underscore_default fld = v \<and>
             (\<forall>w'. get_default fld w' =
                (case container_func env k (mem w') v of
                   Inl e \<Rightarrow> Inl e
                 | Inr (r, s') \<Rightarrow> Inr (r, \<lparr>mem = s', calls = calls w' @ [v]\<rparr>)))"
proof -
  from container_init [OF assms] obtain v where
    v: "container_func env k (mem w) d = Inr (v, mem w1)" "calls w1 = calls w @ [d]"
       "underscore_default fld = v" "\<forall>w'. get_default fld w' = call_func fld v w'"
       "func fld = container_func env k"
    by blast
  from v(4,5) have "\<forall>w'. get_default fld w' =
                (case container_func env k (mem w') v of
                   Inl e \<Rightarrow> Inl e
                 | Inr (r, s') \<Rightarrow> Inr (r, \<lparr>mem = s', calls = calls w' @ [v]\<rparr>))"
    by (simp add: call_func_def)
  with v(1,2,3) show ?thesis by blast
qed

theorem container_default_stored_coerced_witness:
  "VRange 665 668 1 \<noteq> VNoDefault \<and>
   StandartContainer_init example_env List (VRange 665 668 1) empty_world =
     Inr (\<lparr>func = container_func example_env List, default_val = VNoDefault, underscore_default = VRef 0,
           enc = None, is_container = True\<rparr>,
          \<lparr>mem = \<lparr>heap = [OList [VInt 665, VInt 666, VInt 667]], next_id = 0\<rparr>,
           calls = [VRange 665 668 1]\<rparr>) \<and>
   (\<exists>v. container_func example_env List (mem empty_world) (VRange 665 668 1) =
          Inr (v, \<lparr>heap = [OList [VInt 665, VInt 666, VInt 667]], next_id = 0\<rparr>) \<and>
        v = VRef 0)"
proof -
  have c: "VRange 665 668 1 \<noteq> VNoDefault" by simp
  from container_default_stored_coerced [OF c list_field_example] c list_field_example
  show ?thesis by auto
qed

subsection \<open>C3: a scalar default is coerced once, at declaration\<close>

text \<open>
  C3. For every scalar field (\<^verbatim>\<open>Field\<close>, a \<^verbatim>\<open>SimpleField\<close> subclass, \<^verbatim>\<open>String\<close>) constructed
  with a default \<open>d\<close> that is not the sentinel: if the coercion function, applied to \<open>d\<close>,
  returns a value \<open>v\<close>, then the constructor returns a field; it has applied the coercion
  function to \<open>d\<close> exactly once (the store after construction is the one that call left,
  and the call log has grown by the single entry \<open>d\<close>), the value \<open>v\<close> is stored as
  \<^verbatim>\<open>default\<close>, and reading \<^verbatim>\<open>default\<close> in any later world \<open>w'\<close> returns \<open>v\<close> and leaves \<open>w'\<close>,
  call log included, unchanged: the coercion function is not run again. Conversely, a
  field that the constructor has returned came about in this way. The first three
  conjuncts say the former, the last three the latter.
\<close>

theorem scalar_default_coerced_once:
  "d \<noteq> VNoDefault \<Longrightarrow>
   (f (mem w) d = Inr (v, s') \<longrightarrow>
      (\<exists>fld'. Field_new f d w = Inr (fld', \<lparr>mem = s', calls = calls w @ [d]\<rparr>) \<and>
              default_val fld' = v \<and> (\<forall>w'. get_default fld' w' = Inr (v, w')))) \<and>
   (simple_func env k (mem w) d = Inr (v, s') \<longrightarrow>
      (\<exists>fld'. SimpleField_init env k d w = Inr (fld', \<lparr>mem = s', calls = calls w @ [d]\<rparr>) \<and>
              default_val fld' = v \<and> (\<forall>w'. get_default fld' w' = Inr (v, w')))) \<and>
   (String_func env (case enc_arg of None \<Rightarrow> ''UTF-8'' | Some c \<Rightarrow> c) (mem w) d = Inr (v, s')
      \<longrightarrow>
      (\<exists>fld'. String_init env d enc_arg w = Inr (fld', \<lparr>mem = s', calls = calls w @ [d]\<rparr>) \<and>
              default_val fld' = v \<and> (\<forall>w'. get_default fld' w' = Inr (v, w')))) \<and>
   (Field_new f d w = Inr (fld, w1) \<longrightarrow>
      (\<exists>u. f (mem w) d = Inr (u, mem w1) \<and> calls w1 = calls w @ [d] \<and> default_val fld = u \<and>
           (\<forall>w'. get_default fld w' = Inr (u, w')))) \<and>
   (SimpleField_init env k d w = Inr (fld, w1) \<longrightarrow>
      (\<exists>u. simple_func env k (mem w) d = Inr (u, mem w1) \<and> calls w1 = calls w @ [d] \<and>
           default_val fld = u \<and> (\<forall>w'. get_default fld w' = Inr (u, w')))) \<and>
   (String_init env d enc_arg w = Inr (fld, w1) \<longrightarrow>
      (\<exists>u. String_func env (case enc_arg of None \<Rightarrow> ''UTF-8'' | Some c \<Rightarrow> c) (mem w) d
             = Inr (u, mem w1) \<and>
           calls w1 = calls w @ [d] \<and> default_val fld = u \<and>
           (\<forall>w'. get_default fld w' = Inr (u, w'))))"
proof (intro conjI impI)
  assume d: "d \<noteq> VNoDefault"
  have n: "\<not> is_container (new_object False)"
    "\<not> is_container ((new_object False)\<lparr>enc := e\<rparr>)" for e
    by (simp_all add: new_object_def)
  {
    assume a: "f (mem w) d = Inr (v, s')"
    show "\<exists>fld'. Field_new f d w = Inr (fld', \<lparr>mem = s', calls = calls w @ [d]\<rparr>) \<and>
              default_val fld' = v \<and> (\<forall>w'. get_default fld' w' = Inr (v, w'))"
      unfolding Field_new_def
      by (rule scalar_init_ok [where g = f and self = "new_object False", OF d a n(1)])
  }
  {
    assume a: "simple_func env k (mem w) d = Inr (v, s')"
    show "\<exists>fld'. SimpleField_init env k d w = Inr (fld', \<lparr>mem = s', calls = calls w @ [d]\<rparr>) \<and>
              default_val fld' = v \<and> (\<forall>w'. get_default fld' w' = Inr (v, w'))"
      unfolding SimpleField_init_def
      by (rule scalar_init_ok
          [where g = "simple_func env k" and self = "new_object False", OF d a n(1)])
  }
  {
    assume a: "String_func env (case enc_arg of None \<Rightarrow> ''UTF-8'' | Some c \<Rightarrow> c) (mem w) d
              = Inr (v, s')"
    show "\<exists>fld'. String_init env d enc_arg w = Inr (fld', \<lparr>mem = s', calls = calls w @ [d]\<rparr>) \<and>
              default_val fld' = v \<and> (\<forall>w'. get_default fld' w' = Inr (v, w'))"
      unfolding String_init_def Let_def
      by (rule scalar_init_ok
          [where g = "String_func env (case enc_arg of None \<Rightarrow> ''UTF-8'' | Some c \<Rightarrow> c)",
           OF d a n(2)])
  }
  {
    assume "Field_new f d w = Inr (fld, w1)"
    then show "\<exists>u. f (mem w) d = Inr (u, mem w1) \<and> calls w1 = calls w @ [d] \<and>
           default_val fld = u \<and> (\<forall>w'. get_default fld w' = Inr (u, w'))"
      using d by (auto simp: Field_new_def new_object_def dest!: scalar_init)
  }
  {
    assume "SimpleField_init env k d w = Inr (fld, w1)"
    then show "\<exists>u. simple_func env k (mem w) d = Inr (u, mem w1) \<and> calls w1 = calls w @ [d] \<and>
           default_val fld = u \<and> (\<forall>w'. get_default fld w' = Inr (u, w'))"
      using d by (auto simp: SimpleField_init_def new_object_def dest!: scalar_init)
  }
  {
    assume "String_init env d enc_arg w = Inr (fld, w1)"
    then show "\<exists>u. String_func env (case enc_arg of None \<Rightarrow> ''UTF-8'' | Some c \<Rightarrow> c) (mem w) d
             = Inr (u, mem w1) \<and>
           calls w1 = calls w @ [d] \<and> default_val fld = u \<and>
           (\<forall>w'. get_default fld w' = Inr (u, w'))"
      using d by (auto simp: String_init_def Let_def new_object_def dest!: scalar_init)
  }
qed

text \<open>
  Three declarations in the empty world: \<^verbatim>\<open>Field(bool, 5)\<close> stores \<^verbatim>\<open>True\<close>, the integer
  field declared with the default \<^verbatim>\<open>'12'\<close>, as in the docstring of \<^verbatim>\<open>Field\<close>, stores 12,
  and the text field with the codec \<^verbatim>\<open>ascii\<close> declared with the default \<^verbatim>\<open>b'ab'\<close> stores
  \<^verbatim>\<open>'ab'\<close>. Each has called its coercion function once, and reads what it stores.
\<close>

theorem scalar_default_coerced_once_witness:
  "VInt 5 \<noteq> VNoDefault \<and> VStr ''12'' \<noteq> VNoDefault \<and> VBytes [97, 98] \<noteq> VNoDefault \<and>
   py_bool (mem empty_world) (VInt 5) = Inr (VBool True, mem empty_world) \<and>
   (\<exists>fld. Field_new py_bool (VInt 5) empty_world =
            Inr (fld, \<lparr>mem = mem empty_world, calls = [VInt 5]\<rparr>) \<and>
          default_val fld = VBool True \<and>
          get_default fld empty_world = Inr (VBool True, empty_world)) \<and>
   simple_func example_env Integer (mem empty_world) (VStr ''12'') =
     Inr (VInt 12, mem empty_world) \<and>
   (\<exists>fld. SimpleField_init example_env Integer (VStr ''12'') empty_world =
            Inr (fld, \<lparr>mem = mem empty_world, calls = [VStr ''12'']\<rparr>) \<and>
          default_val fld = VInt 12 \<and>
          get_default fld empty_world = Inr (VInt 12, empty_world)) \<and>
   String_func example_env ''ascii'' (mem empty_world) (VBytes [97, 98]) =
     Inr (VStr ''ab'', mem empty_world) \<and>
   (\<exists>fld. String_init example_env (VBytes [97, 98]) (Some ''ascii'') empty_world =
            Inr (fld, \<lparr>mem = mem empty_world, calls = [VBytes [97, 98]]\<rparr>) \<and>
          default_val fld = VStr ''ab'' \<and>
          get_default fld empty_world = Inr (VStr ''ab'', empty_world))"
proof -
  let ?s = "mem empty_world"
  have c: "VInt 5 \<noteq> VNoDefault" "VStr ''12'' \<noteq> VNoDefault" "VBytes [97, 98] \<noteq> VNoDefault"
    by simp_all
  have e: "calls empty_world = []" by (simp add: empty_world_def)
  have b: "py_bool ?s (VInt 5) = Inr (VBool True, ?s)" by (simp add: py_bool_def)
  have p: "int_of_literal example_env is_space ''12'' = Inr 12" by code_simp
  have i: "simple_func example_env Integer ?s (VStr ''12'') = Inr (VInt 12, ?s)"
    using p by (simp add: simple_func_def py_int_def)
  have "ascii_decode [97, 98] = Inr ''ab''" by code_simp
  then have t: "String_func example_env ''ascii'' ?s (VBytes [97, 98]) = Inr (VStr ''ab'', ?s)"
    by (simp add: String_func_def py_str_decode_def example_env_def)
  have t': "String_func example_env (case Some ''ascii'' of None \<Rightarrow> ''UTF-8'' | Some c \<Rightarrow> c) ?s
              (VBytes [97, 98]) = Inr (VStr ''ab'', ?s)"
    using t by simp
  from scalar_default_coerced_once [OF c(1), of py_bool empty_world "VBool True" ?s
      example_env Integer None "new_object False" empty_world]
  have "py_bool ?s (VInt 5) = Inr (VBool True, ?s) \<longrightarrow>
      (\<exists>fld'. Field_new py_bool (VInt 5) empty_world =
                Inr (fld', \<lparr>mem = ?s, calls = calls empty_world @ [VInt 5]\<rparr>) \<and>
              default_val fld' = VBool True \<and>
              (\<forall>w'. get_default fld' w' = Inr (VBool True, w')))"
    by (elim conjE)
  with b e have first:
    "\<exists>fld. Field_new py_bool (VInt 5) empty_world = Inr (fld, \<lparr>mem = ?s, calls = [VInt 5]\<rparr>) \<and>
          default_val fld = VBool True \<and>
          get_default fld empty_world = Inr (VBool True, empty_world)"
    by auto
  from scalar_default_coerced_once [OF c(2), of py_bool empty_world "VInt 12" ?s
      example_env Integer None "new_object False" empty_world]
  have "simple_func example_env Integer ?s (VStr ''12'') = Inr (VInt 12, ?s) \<longrightarrow>
      (\<exists>fld'. SimpleField_init example_env Integer (VStr ''12'') empty_world =
                Inr (fld', \<lparr>mem = ?s, calls = calls empty_world @ [VStr ''12'']\<rparr>) \<and>
              default_val fld' = VInt 12 \<and>
              (\<forall>w'. get_default fld' w' = Inr (VInt 12, w')))"
    by (elim conjE)
  with i e have second:
    "\<exists>fld. SimpleField_init example_env Integer (VStr ''12'') empty_world =
            Inr (fld, \<lparr>mem = ?s, calls = [VStr ''12'']\<rparr>) \<and>
          default_val fld = VInt 12 \<and>
          get_default fld empty_world = Inr (VInt 12, empty_world)"
    by auto
  from scalar_default_coerced_once [OF c(3), of py_bool empty_world "VStr ''ab''" ?s
      example_env Integer "Some ''ascii''" "new_object False" empty_world]
  have "String_func example_env (case Some ''ascii'' of None \<Rightarrow> ''UTF-8'' | Some c \<Rightarrow> c) ?s
          (VBytes [97, 98]) = Inr (VStr ''ab'', ?s) \<longrightarrow>
      (\<exists>fld'. String_init example_env (VBytes [97, 98]) (Some ''ascii'') empty_world =
                Inr (fld', \<lparr>mem = ?s, calls = calls empty_world @ [VBytes [97, 98]]\<rparr>) \<and>
              default_val fld' = VStr ''ab'' \<and>
              (\<forall>w'. get_default fld' w' = Inr (VStr ''ab'', w')))"
    by (elim conjE)
  with t' e have third:
    "\<exists>fld. String_init example_env (VBytes [97, 98]) (Some ''ascii'') empty_world =
            Inr (fld, \<lparr>mem = ?s, calls = [VBytes [97, 98]]\<rparr>) \<and>
          default_val fld = VStr ''ab'' \<and>
          get_default fld empty_world = Inr (VStr ''ab'', empty_world)"
    by auto
  from c b first i second t third show ?thesis by blast
qed

subsection \<open>C4: an invalid default fails at declaration\<close>

text \<open>
  C4. For every field, if the coercion function raises when applied to the supplied
  default value, construction of the field fails with that same error, at declaration
  time. No field object comes into being, so the error cannot be deferred to a first
  read. The four conjuncts are the four ways the module builds a field: \<^verbatim>\<open>Field\<close>, the
  subclasses of \<^verbatim>\<open>SimpleField\<close>, \<^verbatim>\<open>String\<close>, and the subclasses of \<^verbatim>\<open>StandartContainer\<close>.
\<close>

theorem invalid_default_fails_at_declaration:
  "d \<noteq> VNoDefault \<Longrightarrow>
     (f (mem w) d = Inl e \<longrightarrow> Field_new f d w = Inl e) \<and>
     (simple_func env k (mem w) d = Inl e \<longrightarrow> SimpleField_init env k d w = Inl e) \<and>
     (String_func env (case enc_arg of None \<Rightarrow> ''UTF-8'' | Some c \<Rightarrow> c) (mem w) d = Inl e
        \<longrightarrow> String_init env d enc_arg w = Inl e) \<and>
     (container_func env c (mem w) d = Inl e \<longrightarrow> StandartContainer_init env c d w = Inl e)"
  by (simp add: Field_new_def SimpleField_init_def String_init_def StandartContainer_init_def
      Field_init_error Let_def)

text \<open>
  An integer field declared with the default \<^verbatim>\<open>'abc'\<close>, and a bytes field declared with
  the default \<^verbatim>\<open>'abc'\<close>: the declarations raise.
\<close>

theorem invalid_default_fails_at_declaration_witness:
  "VStr ''abc'' \<noteq> VNoDefault \<and>
   simple_func example_env Integer (mem empty_world) (VStr ''abc'') = Inl ValueError \<and>
   SimpleField_init example_env Integer (VStr ''abc'') empty_world = Inl ValueError \<and>
   py_bytes example_env (mem empty_world) (VStr ''abc'') = Inl TypeError \<and>
   Field_new (py_bytes example_env) (VStr ''abc'') empty_world = Inl TypeError"
proof -
  have a: "simple_func example_env Integer (mem empty_world) (VStr ''abc'') = Inl ValueError"
    by code_simp
  have b: "py_bytes example_env (mem empty_world) (VStr ''abc'') = Inl TypeError"
    by (simp add: py_bytes_def)
  have c: "VStr ''abc'' \<noteq> VNoDefault" by simp
  from invalid_default_fails_at_declaration
    [OF c, of "py_bytes example_env" empty_world ValueError example_env Integer None List]
  have "SimpleField_init example_env Integer (VStr ''abc'') empty_world = Inl ValueError"
    using a by simp
  moreover from invalid_default_fails_at_declaration
    [OF c, of "py_bytes example_env" empty_world TypeError example_env Integer None List]
  have "Field_new (py_bytes example_env) (VStr ''abc'') empty_world = Inl TypeError"
    using b by simp
  ultimately show ?thesis using a b by simp
qed

subsection \<open>C5: the text field\<close>

text \<open>
  C5, as the claim states it, fails when the input is a byte string that the codec
  cannot decode: the decoding fails with \<^verbatim>\<open>UnicodeDecodeError\<close>, which \<^verbatim>\<open>String.func\<close> does
  not catch, so the error is raised and \<^verbatim>\<open>str(x)\<close> is not returned. Here the codec is
  \<^verbatim>\<open>ascii\<close> and the input \<^verbatim>\<open>b'\xff'\<close>.
\<close>

theorem undecodable_bytes_raise:
  "decode example_env ''ascii'' [255] = Inl UnicodeDecodeError \<and>
   String_func example_env ''ascii'' (mem empty_world) (VBytes [255]) = Inl UnicodeDecodeError"
  by (simp add: String_func_def py_str_decode_def example_env_def ascii_decode_def)

text \<open>
  C5, amended. A \<^verbatim>\<open>String\<close> field coerces with \<^verbatim>\<open>String.func\<close> and the codec it was
  configured with, \<^verbatim>\<open>UTF-8\<close> when none was given.
  \<^item> Text is returned unchanged.
  \<^item> A byte string that the codec decodes yields the decoded text.
  \<^item> A byte string for which decoding raises an error other than \<^verbatim>\<open>TypeError\<close> (such as
    \<^verbatim>\<open>UnicodeDecodeError\<close>) raises that error.
  \<^item> An input that is neither text nor a byte string cannot be decoded (\<^verbatim>\<open>TypeError\<close>),
    and whenever the decoding attempt raises \<^verbatim>\<open>TypeError\<close> the coercion does what
    \<^verbatim>\<open>str(x)\<close> does: it returns the text that \<^verbatim>\<open>str(x)\<close> returns, or raises the error that
    \<^verbatim>\<open>str(x)\<close> raises.
\<close>

theorem text_field_coercion:
  "(String_init env d enc_arg w = Inr (fld, w1) \<longrightarrow>
      func fld = String_func env (case enc_arg of None \<Rightarrow> ''UTF-8'' | Some c \<Rightarrow> c)) \<and>
   String_func env codec s (VStr t) = Inr (VStr t, s) \<and>
   (decode env codec bs = Inr t \<longrightarrow> String_func env codec s (VBytes bs) = Inr (VStr t, s)) \<and>
   (decode env codec bs = Inl e \<and> e \<noteq> TypeError \<longrightarrow>
      String_func env codec s (VBytes bs) = Inl e) \<and>
   ((\<forall>t'. x \<noteq> VStr t') \<and> (\<forall>bs'. x \<noteq> VBytes bs') \<longrightarrow>
      py_str_decode env x codec = Inl TypeError) \<and>
   ((\<forall>t'. x \<noteq> VStr t') \<and> py_str_decode env x codec = Inl TypeError \<longrightarrow>
      String_func env codec s x =
        (case to_str env s x of Inl e' \<Rightarrow> Inl e' | Inr t' \<Rightarrow> Inr (VStr t', s)))"
proof (intro conjI impI)
  assume "String_init env d enc_arg w = Inr (fld, w1)"
  then show "func fld = String_func env (case enc_arg of None \<Rightarrow> ''UTF-8'' | Some c \<Rightarrow> c)"
    by (auto simp: String_init_def Let_def dest: Field_init_func)
next
  show "String_func env codec s (VStr t) = Inr (VStr t, s)"
    by (simp add: String_func_def)
next
  assume "decode env codec bs = Inr t"
  then show "String_func env codec s (VBytes bs) = Inr (VStr t, s)"
    by (simp add: String_func_def py_str_decode_def)
next
  assume "decode env codec bs = Inl e \<and> e \<noteq> TypeError"
  then show "String_func env codec s (VBytes bs) = Inl e"
    by (simp add: String_func_def py_str_decode_def)
next
  assume "(\<forall>t'. x \<noteq> VStr t') \<and> (\<forall>bs'. x \<noteq> VBytes bs')"
  then show "py_str_decode env x codec = Inl TypeError"
    by (cases x) (simp_all add: py_str_decode_def)
next
  assume "(\<forall>t'. x \<noteq> VStr t') \<and> py_str_decode env x codec = Inl TypeError"
  then show "String_func env codec s x =
        (case to_str env s x of Inl e' \<Rightarrow> Inl e' | Inr t' \<Rightarrow> Inr (VStr t', s))"
    by (cases x) (simp_all add: String_func_def py_str_def split: sum.splits)
qed

text \<open>
  With the codec \<^verbatim>\<open>ascii\<close>: \<^verbatim>\<open>b'ab'\<close> is decoded to \<^verbatim>\<open>'ab'\<close>; \<^verbatim>\<open>None\<close>, which is neither
  text nor bytes, becomes \<^verbatim>\<open>'None'\<close>, and the number 777 becomes \<^verbatim>\<open>'777'\<close>, as in the
  docstring of \<^verbatim>\<open>String\<close>.
\<close>

theorem text_field_coercion_witness:
  "decode example_env ''ascii'' [97, 98] = Inr ''ab'' \<and>
   String_func example_env ''ascii'' (mem empty_world) (VBytes [97, 98]) =
     Inr (VStr ''ab'', mem empty_world) \<and>
   py_str_decode example_env VNone ''ascii'' = Inl TypeError \<and>
   String_func example_env ''ascii'' (mem empty_world) VNone =
     Inr (VStr ''None'', mem empty_world) \<and>
   py_str_decode example_env (VInt 777) ''ascii'' = Inl TypeError \<and>
   String_func example_env ''ascii'' (mem empty_world) (VInt 777) =
     Inr (VStr ''777'', mem empty_world)"
proof -
  let ?s = "mem empty_world"
  have "ascii_decode [97, 98] = Inr ''ab''" by code_simp
  then have a: "decode example_env ''ascii'' [97, 98] = Inr ''ab''"
    by (simp add: example_env_def)
  have b: "(\<forall>t'. VNone \<noteq> VStr t') \<and> (\<forall>bs'. VNone \<noteq> VBytes bs')"
    "(\<forall>t'. VInt 777 \<noteq> VStr t') \<and> (\<forall>bs'. VInt 777 \<noteq> VBytes bs')"
    by simp_all
  have c: "to_str example_env ?s VNone = Inr ''None''" by (simp add: example_env_def)
  have "str_of_int 4300 777 = Inr ''777''" by code_simp
  then have c': "to_str example_env ?s (VInt 777) = Inr ''777''" by (simp add: example_env_def)
  from text_field_coercion [of example_env VNoDefault None empty_world "new_object False"
      empty_world "''ascii''" ?s "''ab''" "[97, 98]" UnicodeDecodeError VNone]
  have "String_func example_env ''ascii'' ?s (VBytes [97, 98]) = Inr (VStr ''ab'', ?s)"
    and n1: "py_str_decode example_env VNone ''ascii'' = Inl TypeError"
    and "String_func example_env ''ascii'' ?s VNone =
           (case to_str example_env ?s VNone of
              Inl e' \<Rightarrow> Inl e' | Inr t' \<Rightarrow> Inr (VStr t', ?s))"
    using a b(1) by simp_all
  moreover
  from text_field_coercion [of example_env VNoDefault None empty_world "new_object False"
      empty_world "''ascii''" ?s "''ab''" "[97, 98]" UnicodeDecodeError "VInt 777"]
  have n2: "py_str_decode example_env (VInt 777) ''ascii'' = Inl TypeError"
    and "String_func example_env ''ascii'' ?s (VInt 777) =
           (case to_str example_env ?s (VInt 777) of
              Inl e' \<Rightarrow> Inl e' | Inr t' \<Rightarrow> Inr (VStr t', ?s))"
    using a b(2) by simp_all
  ultimately show ?thesis using a c c' by simp
qed

subsection \<open>C6: the bytes field\<close>

text \<open>
  C6. The coercion of a \<^verbatim>\<open>Bytes\<close> field (and of the deprecated \<^verbatim>\<open>Binary\<close>) is \<^verbatim>\<open>bytes\<close>:
  called with a byte string it returns that byte string, and called with any text, the empty
  text included, it raises \<^verbatim>\<open>TypeError\<close>; nothing is encoded.
\<close>

theorem bytes_field_coercion:
  "simple_func env Bytes s (VBytes bs) = Inr (VBytes bs, s) \<and>
   simple_func env Bytes s (VStr t) = Inl TypeError \<and>
   simple_func env Binary s (VBytes bs) = Inr (VBytes bs, s) \<and>
   simple_func env Binary s (VStr t) = Inl TypeError"
  by (simp add: simple_func_def py_bytes_def)

text \<open>\<^verbatim>\<open>b'x'\<close> is accepted and \<^verbatim>\<open>'unicode string'\<close> refused, as in the docstring of \<^verbatim>\<open>Bytes\<close>.\<close>

theorem bytes_field_coercion_witness:
  "simple_func example_env Bytes (mem empty_world) (VBytes [120]) = Inr (VBytes [120], mem empty_world) \<and>
   simple_func example_env Bytes (mem empty_world) (VStr ''unicode string'') = Inl TypeError"
  using bytes_field_coercion [of example_env "mem empty_world" "[120]" "''unicode string''"]
  by simp

subsection \<open>C7: the integer field\<close>

text \<open>
  C7, as the claim states it, fails on the floats that are not finite: \<^verbatim>\<open>int\<close> does not
  truncate them, it raises \<^verbatim>\<open>ValueError\<close> for a NaN and \<^verbatim>\<open>OverflowError\<close> for an infinity.
  Text that is not an integer literal, such as \<^verbatim>\<open>'abc'\<close>, raises \<^verbatim>\<open>ValueError\<close> as well, not
  a type error.
\<close>

theorem int_of_nonfinite_float_raises:
  "simple_func example_env Integer (mem empty_world) (VFloat (NaN 0)) = Inl ValueError \<and>
   simple_func example_env Integer (mem empty_world) (VFloat PosInf) = Inl OverflowError \<and>
   simple_func example_env Integer (mem empty_world) (VFloat NegInf) = Inl OverflowError \<and>
   simple_func example_env Integer (mem empty_world) (VStr ''abc'') = Inl ValueError"
  by code_simp

text \<open>
  C7, amended. The coercion of an \<^verbatim>\<open>Integer\<close> field is \<^verbatim>\<open>int\<close>.
  \<^item> Every finite float \<open>m * 2^e\<close> and every finite decimal \<open>c * 10^e\<close> is rounded toward
    zero; a float NaN raises \<^verbatim>\<open>ValueError\<close> and a float infinity \<^verbatim>\<open>OverflowError\<close>.
  \<^item> Text made of decimal digits, in groups \<open>gs\<close> with single underscores between them,
    with an optional sign in front and whitespace around, is parsed to the number that
    the digits denote, provided the interpreter's limit on the number of digits, if it
    has one, is not exceeded.
  \<^item> Text never raises a type error: any text is either parsed to an integer or raises
    \<^verbatim>\<open>ValueError\<close>. A value that is neither a number nor text nor bytes raises
    \<^verbatim>\<open>TypeError\<close>.
  \<^item> An integer field declared with the default 10 has 10 as its \<^verbatim>\<open>default\<close>, and an
    instance that has not set the attribute reads 10; after 5.2, the float
    \<open>5854679515581645 * 2^-50\<close>, has been assigned, which calls the coercion once, the
    instance reads 5.
\<close>

theorem integer_field_coercion:
  "simple_func env Integer s (VFloat (Finite m e)) = Inr (VInt (toward_zero (float_value m e)), s) \<and>
   simple_func env Integer s (VDecimal (DFinite sg c e)) =
     Inr (VInt (toward_zero (decimal_value sg c e)), s) \<and>
   simple_func env Integer s (VFloat (NaN i)) = Inl ValueError \<and>
   simple_func env Integer s (VFloat PosInf) = Inl OverflowError \<and>
   simple_func env Integer s (VFloat NegInf) = Inl OverflowError \<and>
   (digit_groups gs \<and> list_all is_space l \<and> list_all is_space r \<and>
    within_limit env (length (concat gs)) \<longrightarrow>
      simple_func env Integer s (VStr (l @ join_groups gs @ r)) =
        Inr (VInt (dec_value (concat gs)), s) \<and>
      simple_func env Integer s (VStr (l @ CHR ''+'' # join_groups gs @ r)) =
        Inr (VInt (dec_value (concat gs)), s) \<and>
      simple_func env Integer s (VStr (l @ CHR ''-'' # join_groups gs @ r)) =
        Inr (VInt (- dec_value (concat gs)), s)) \<and>
   ((\<exists>n. simple_func env Integer s (VStr t) = Inr (VInt n, s)) \<or>
    simple_func env Integer s (VStr t) = Inl ValueError) \<and>
   (\<not> number_or_text x \<longrightarrow> simple_func env Integer s x = Inl TypeError) \<and>
   (\<exists>fld. SimpleField_init env Integer (VInt 10) w =
            Inr (fld, \<lparr>mem = mem w, calls = calls w @ [VInt 10]\<rparr>) \<and>
          get_default fld w' = Inr (VInt 10, w') \<and>
          FieldDescriptor_get attr fld Map.empty w' = Inr (VInt 10, w') \<and>
          (\<exists>obj. FieldDescriptor_set attr fld Map.empty
                   (VFloat (Finite 5854679515581645 (- 50))) w' =
                   Inr (obj, \<lparr>mem = mem w',
                              calls = calls w' @ [VFloat (Finite 5854679515581645 (- 50))]\<rparr>) \<and>
                 (\<forall>w''. FieldDescriptor_get attr fld obj w'' = Inr (VInt 5, w''))))"
proof (intro conjI impI)
  show "simple_func env Integer s (VFloat (Finite m e)) =
          Inr (VInt (toward_zero (float_value m e)), s)"
    by (simp add: simple_func_def py_int_def trunc_dyadic_toward_zero)
next
  show "simple_func env Integer s (VDecimal (DFinite sg c e)) =
          Inr (VInt (toward_zero (decimal_value sg c e)), s)"
    by (simp add: simple_func_def py_int_def trunc_decimal_toward_zero)
next
  show "simple_func env Integer s (VFloat (NaN i)) = Inl ValueError"
    and "simple_func env Integer s (VFloat PosInf) = Inl OverflowError"
    and "simple_func env Integer s (VFloat NegInf) = Inl OverflowError"
    by (simp_all add: simple_func_def py_int_def)
next
  assume a: "digit_groups gs \<and> list_all is_space l \<and> list_all is_space r \<and>
    within_limit env (length (concat gs))"
  then have d: "digit_groups gs" "list_all is_space l" "list_all is_space r"
    and m: "within_limit env (length (concat gs))"
    by simp_all
  from literal_plain [OF d m]
  show "simple_func env Integer s (VStr (l @ join_groups gs @ r)) =
          Inr (VInt (dec_value (concat gs)), s)"
    by (simp add: simple_func_def py_int_def)
  from literal_signed [OF d _ m, of "CHR ''+''"]
  show "simple_func env Integer s (VStr (l @ CHR ''+'' # join_groups gs @ r)) =
          Inr (VInt (dec_value (concat gs)), s)"
    by (simp add: simple_func_def py_int_def)
  from literal_signed [OF d _ m, of "CHR ''-''"]
  show "simple_func env Integer s (VStr (l @ CHR ''-'' # join_groups gs @ r)) =
          Inr (VInt (- dec_value (concat gs)), s)"
    by (simp add: simple_func_def py_int_def)
next
  show "(\<exists>n. simple_func env Integer s (VStr t) = Inr (VInt n, s)) \<or>
    simple_func env Integer s (VStr t) = Inl ValueError"
    by (simp add: simple_func_def py_int_def int_of_literal_def Let_def split: option.splits)
next
  assume "\<not> number_or_text x"
  then show "simple_func env Integer s x = Inl TypeError"
    by (simp add: simple_func_def py_int_unsupported)
next
  let ?x = "VFloat (Finite 5854679515581645 (- 50))"
  let ?fld = "set_default ((new_object False)\<lparr>func := simple_func env Integer\<rparr>) (VInt 10)"
  have t: "trunc_dyadic 5854679515581645 (- 50) = 5" by code_simp
  have i: "SimpleField_init env Integer (VInt 10) w =
            Inr (?fld, \<lparr>mem = mem w, calls = calls w @ [VInt 10]\<rparr>)"
    by (simp add: SimpleField_init_def Field_init_def call_func_def simple_func_def py_int_def)
  have g: "get_default ?fld w' = Inr (VInt 10, w')"
    by (simp add: get_default_def set_default_def new_object_def)
  have r: "FieldDescriptor_get attr ?fld Map.empty w' = Inr (VInt 10, w')"
    by (simp add: FieldDescriptor_get_def g)
  have c: "call_func ?fld ?x w' = Inr (VInt 5, \<lparr>mem = mem w', calls = calls w' @ [?x]\<rparr>)"
    using t
    by (simp add: call_func_def set_default_def new_object_def simple_func_def py_int_def)
  have w: "FieldDescriptor_set attr ?fld Map.empty ?x w' =
             Inr (Map.empty(attr \<mapsto> VInt 5), \<lparr>mem = mem w', calls = calls w' @ [?x]\<rparr>)"
    by (simp add: FieldDescriptor_set_def c)
  have r': "\<forall>w''. FieldDescriptor_get attr ?fld (Map.empty(attr \<mapsto> VInt 5)) w'' = Inr (VInt 5, w'')"
    by (simp add: FieldDescriptor_get_def)
  from i g r w r'
  show "\<exists>fld. SimpleField_init env Integer (VInt 10) w =
            Inr (fld, \<lparr>mem = mem w, calls = calls w @ [VInt 10]\<rparr>) \<and>
          get_default fld w' = Inr (VInt 10, w') \<and>
          FieldDescriptor_get attr fld Map.empty w' = Inr (VInt 10, w') \<and>
          (\<exists>obj. FieldDescriptor_set attr fld Map.empty ?x w' =
                   Inr (obj, \<lparr>mem = mem w', calls = calls w' @ [?x]\<rparr>) \<and>
                 (\<forall>w''. FieldDescriptor_get attr fld obj w'' = Inr (VInt 5, w'')))"
    by blast
qed

text \<open>
  \<^verbatim>\<open>int(-5.2)\<close> is \<open>-5\<close>, \<^verbatim>\<open>int(' -12 ')\<close> is \<open>-12\<close>, \<^verbatim>\<open>int('1_000')\<close> is 1000, \<^verbatim>\<open>int(None)\<close>
  raises \<^verbatim>\<open>TypeError\<close>.
\<close>

theorem integer_field_coercion_witness:
  "simple_func example_env Integer (mem empty_world) (VFloat (Finite (- 5854679515581645) (- 50)))
     = Inr (VInt (- 5), mem empty_world) \<and>
   digit_groups [''12''] \<and> digit_groups [''1'', ''000''] \<and> list_all is_space '' '' \<and>
   within_limit example_env (length (concat [''12''])) \<and>
   within_limit example_env (length (concat [''1'', ''000''])) \<and>
   simple_func example_env Integer (mem empty_world) (VStr '' -12 '') =
     Inr (VInt (- 12), mem empty_world) \<and>
   simple_func example_env Integer (mem empty_world) (VStr ''1_000'') =
     Inr (VInt 1000, mem empty_world) \<and>
   \<not> number_or_text VNone \<and>
   simple_func example_env Integer (mem empty_world) VNone = Inl TypeError"
proof -
  let ?s = "mem empty_world"
  have t: "toward_zero (float_value (- 5854679515581645) (- 50)) = - 5"
    using trunc_dyadic_toward_zero [of "- 5854679515581645" "- 50", symmetric] by code_simp
  have d: "digit_groups [''12'']" "digit_groups [''1'', ''000'']" "list_all is_space '' ''"
    "list_all is_space ''''"
    by (simp_all add: digit_groups_def is_digit_def is_space_def)
  have m: "within_limit example_env (length (concat [''12'']))"
    "within_limit example_env (length (concat [''1'', ''000'']))"
    by (simp_all add: within_limit_def)
  have v: "dec_value (concat [''12'']) = 12" "dec_value (concat [''1'', ''000'']) = 1000"
    by (simp_all add: dec_value_Cons dec_value_Nil digit_val_def)
  have j: "join_groups [''12''] = ''12''" "join_groups [''1'', ''000''] = ''1_000''"
    by simp_all
  have n: "\<not> number_or_text VNone" by (simp add: number_or_text_def)
  from integer_field_coercion [of example_env ?s "- 5854679515581645" "- 50" False 0 0
      "[''12'']" "'' ''" "'' ''" "''abc''" VNone empty_world empty_world "''a''"]
  have "simple_func example_env Integer ?s (VFloat (Finite (- 5854679515581645) (- 50)))
     = Inr (VInt (- 5), ?s)"
    and "simple_func example_env Integer ?s
           (VStr ('' '' @ CHR ''-'' # join_groups [''12''] @ '' ''))
     = Inr (VInt (- 12), ?s)"
    and "simple_func example_env Integer ?s VNone = Inl TypeError"
    using t d m v n by simp_all
  moreover
  from integer_field_coercion [of example_env ?s "- 5854679515581645" "- 50" False 0 0
      "[''1'', ''000'']" "''''" "''''" "''abc''" VNone empty_world empty_world "''a''"]
  have "simple_func example_env Integer ?s (VStr ('''' @ join_groups [''1'', ''000''] @ ''''))
     = Inr (VInt 1000, ?s)"
    using d m v by simp
  ultimately show ?thesis using d m n j by simp
qed

subsection \<open>C8: containers built from iterables\<close>

text \<open>
  C8, as the claim states it, fails for the mapping field on text and for the set fields
  on unhashable elements: \<^verbatim>\<open>dict('ab')\<close> raises \<^verbatim>\<open>ValueError\<close>, because the characters it
  is given are not key/value pairs, and \<^verbatim>\<open>set(([],))\<close> raises \<^verbatim>\<open>TypeError\<close>, because a list
  cannot be an element of a set.
\<close>

theorem dict_of_text_raises:
  "container_func example_env Dict (mem empty_world) (VStr ''ab'') = Inl ValueError \<and>
   container_func example_env Set \<lparr>heap = [OList []], next_id = 1\<rparr> (VTuple 0 [VRef 0]) =
     Inl TypeError"
  by code_simp

text \<open>
  C8, amended. Let \<open>x\<close> be iterable and \<open>xs\<close> the items it yields, in the order in which
  it yields them.
  \<^item> Unless \<open>x\<close> is a range too long to collect, the list field builds a new list holding
    \<open>xs\<close> and the tuple field yields a tuple holding \<open>xs\<close>.
  \<^item> If \<open>x\<close> is not itself a set or frozenset, all items are hashable, and \<open>x\<close> is not a
    range too long to collect, the set field builds a new set and the frozenset field
    a new frozenset of the items \<open>set_items xs\<close>: these are items of \<open>xs\<close>, no two of them
    equal, and every item of \<open>xs\<close> is among them or equal to one of them. If some item
    is unhashable, both fields raise \<^verbatim>\<open>TypeError\<close>.
  \<^item> If \<open>x\<close> is a set or frozenset with the members \<open>ys\<close>, then \<open>xs\<close> are these members in
    some order, the set field builds a new set with the members \<open>ys\<close>, and the frozenset
    field a new frozenset with the members \<open>ys\<close>, or returns \<open>x\<close> itself when \<open>x\<close> is a
    frozenset.
  \<^item> The dict field copies a dict. From items that each yield a key and a value, with
    hashable keys, it builds the dict that assigning the pairs in order gives: its keys
    are the keys of the pairs without repetition, and when no two keys are equal it
    holds exactly the pairs.
  \<^item> Text yields its characters, each a one-character string, so the list, tuple, set
    and frozenset fields hold the characters, the set fields each character once. The
    dict field raises \<^verbatim>\<open>ValueError\<close> on text that is not empty.
  \<^item> The frozenset and the set built from the text \<^verbatim>\<open>'919293'\<close> hold exactly \<^verbatim>\<open>'9'\<close>,
    \<^verbatim>\<open>'1'\<close>, \<^verbatim>\<open>'2'\<close> and \<^verbatim>\<open>'3'\<close>.
\<close>

theorem containers_built_from_iterables:
  assumes "py_iter env s x = Inr xs"
  shows
    "(hint_error env x = None \<longrightarrow>
        container_func env List s x =
          Inr (VRef (length (heap s)), s\<lparr>heap := heap s @ [OList xs]\<rparr>) \<and>
        (\<exists>i s'. container_func env Tuple s x = Inr (VTuple i xs, s'))) \<and>
     (members s x = None \<and> list_all hashable xs \<and> room_error env x = None \<longrightarrow>
        container_func env Set s x =
          Inr (VRef (length (heap s)), s\<lparr>heap := heap s @ [OSet (set_items xs)]\<rparr>) \<and>
        container_func env FrozenSet s x =
          Inr (VFrozenSet (next_id s) (set_items xs), s\<lparr>next_id := Suc (next_id s)\<rparr>) \<and>
        set (set_items xs) \<subseteq> set xs \<and> nodup_from [] (set_items xs) \<and>
        (\<forall>z\<in>set xs. z \<in> set (set_items xs) \<or> list_ex (\<lambda>y. key_eq y z) (set_items xs))) \<and>
     (members s x = None \<and> \<not> list_all hashable xs \<longrightarrow>
        container_func env Set s x = Inl TypeError \<and>
        container_func env FrozenSet s x = Inl TypeError) \<and>
     (members s x = Some ys \<longrightarrow>
        set xs = set ys \<and> length xs = length ys \<and>
        container_func env Set s x =
          Inr (VRef (length (heap s)), s\<lparr>heap := heap s @ [OSet ys]\<rparr>) \<and>
        ((\<forall>i zs. x \<noteq> VFrozenSet i zs) \<longrightarrow>
           container_func env FrozenSet s x =
             Inr (VFrozenSet (next_id s) ys, s\<lparr>next_id := Suc (next_id s)\<rparr>)) \<and>
        ((\<exists>i zs. x = VFrozenSet i zs) \<longrightarrow> container_func env FrozenSet s x = Inr (x, s))) \<and>
     (is_dict s x \<longrightarrow>
        container_func env Dict s x =
          Inr (VRef (length (heap s)), s\<lparr>heap := heap s @ [ODict (dict_items s x)]\<rparr>)) \<and>
     (\<not> is_dict s x \<and> list_all2 (\<lambda>it kv. py_items env s it = Inr [fst kv, snd kv]) xs kvs \<and>
      list_all hashable (map fst kvs) \<longrightarrow>
        container_func env Dict s x =
          Inr (VRef (length (heap s)), s\<lparr>heap := heap s @ [ODict (dict_assign [] kvs)]\<rparr>) \<and>
        map fst (dict_assign [] kvs) = set_items (map fst kvs) \<and>
        (nodup_from [] (map fst kvs) \<longrightarrow> dict_assign [] kvs = kvs)) \<and>
     (x = VStr t \<longrightarrow>
        xs = chars_of t \<and> hint_error env x = None \<and> members s x = None \<and>
        list_all hashable xs \<and> room_error env x = None \<and>
        set (set_items xs) = set xs \<and> distinct (set_items xs) \<and>
        container_func env Dict s x =
          (if t = [] then Inr (VRef (length (heap s)), s\<lparr>heap := heap s @ [ODict []]\<rparr>)
           else Inl ValueError)) \<and>
     (\<exists>zs. container_func env FrozenSet s (VStr ''919293'') =
             Inr (VFrozenSet (next_id s) zs, s\<lparr>next_id := Suc (next_id s)\<rparr>) \<and>
           container_func env Set s (VStr ''919293'') =
             Inr (VRef (length (heap s)), s\<lparr>heap := heap s @ [OSet zs]\<rparr>) \<and>
           set zs = {VStr ''9'', VStr ''1'', VStr ''2'', VStr ''3''} \<and> distinct zs)"
proof (intro conjI impI)
  show "set (set_items xs) \<subseteq> set xs" by (rule set_set_items)
  show "nodup_from [] (set_items xs)" by (rule nodup_set_items)
  show "\<forall>z\<in>set xs. z \<in> set (set_items xs) \<or> list_ex (\<lambda>y. key_eq y z) (set_items xs)"
    using set_items_covers by blast
  show "map fst (dict_assign [] kvs) = set_items (map fst kvs)"
    by (simp add: keys_dict_assign set_items_def)
next
  assume "hint_error env x = None"
  then have i: "py_items env s x = Inr xs" using assms by (simp add: py_items_no_hint)
  show "container_func env List s x =
          Inr (VRef (length (heap s)), s\<lparr>heap := heap s @ [OList xs]\<rparr>)"
    using py_list_iter [OF i] by (simp add: container_func_def)
  show "\<exists>i s'. container_func env Tuple s x = Inr (VTuple i xs, s')"
    using py_tuple_iter [OF i] by (simp add: container_func_def)
next
  assume a: "members s x = None \<and> list_all hashable xs \<and> room_error env x = None"
  then have c: "collect_members env s x = Inr (set_items xs)"
    using collect_members_iter [of s x env xs] assms by simp
  show "container_func env Set s x =
          Inr (VRef (length (heap s)), s\<lparr>heap := heap s @ [OSet (set_items xs)]\<rparr>)"
    using py_set_members [OF c] by (simp add: container_func_def)
  from a have "\<forall>i zs. x \<noteq> VFrozenSet i zs" by (auto dest: members_not_frozenset)
  from py_frozenset_members [OF c this]
  show "container_func env FrozenSet s x =
          Inr (VFrozenSet (next_id s) (set_items xs), s\<lparr>next_id := Suc (next_id s)\<rparr>)"
    by (simp add: container_func_def)
next
  assume a: "members s x = None \<and> \<not> list_all hashable xs"
  then have c: "collect_members env s x = Inl TypeError"
    using collect_members_iter [of s x env xs] assms by simp
  show "container_func env Set s x = Inl TypeError"
    using py_set_error [OF c] by (simp add: container_func_def)
  from a have "\<forall>i zs. x \<noteq> VFrozenSet i zs" by (auto dest: members_not_frozenset)
  from py_frozenset_error [OF c this]
  show "container_func env FrozenSet s x = Inl TypeError"
    by (simp add: container_func_def)
next
  assume m: "members s x = Some ys"
  from py_iter_members [OF m, of env] assms have xs: "xs = iter_set env ys" by simp
  show "set xs = set ys" and "length xs = length ys"
    unfolding xs using iter_set_members [of env ys] by simp_all
  from collect_members_set [OF m] have c: "collect_members env s x = Inr ys" .
  show "container_func env Set s x =
          Inr (VRef (length (heap s)), s\<lparr>heap := heap s @ [OSet ys]\<rparr>)"
    using py_set_members [OF c] by (simp add: container_func_def)
  {
    assume "\<forall>i zs. x \<noteq> VFrozenSet i zs"
    from py_frozenset_members [OF c this]
    show "container_func env FrozenSet s x =
             Inr (VFrozenSet (next_id s) ys, s\<lparr>next_id := Suc (next_id s)\<rparr>)"
      by (simp add: container_func_def)
  }
  {
    assume "\<exists>i zs. x = VFrozenSet i zs"
    then show "container_func env FrozenSet s x = Inr (x, s)"
      by (auto simp: container_func_def py_frozenset_def)
  }
next
  assume "is_dict s x"
  then show "container_func env Dict s x =
          Inr (VRef (length (heap s)), s\<lparr>heap := heap s @ [ODict (dict_items s x)]\<rparr>)"
    by (simp add: container_func_def py_dict_copy)
next
  assume "\<not> is_dict s x \<and> list_all2 (\<lambda>it kv. py_items env s it = Inr [fst kv, snd kv]) xs kvs \<and>
      list_all hashable (map fst kvs)"
  then show "container_func env Dict s x =
          Inr (VRef (length (heap s)), s\<lparr>heap := heap s @ [ODict (dict_assign [] kvs)]\<rparr>)"
    using py_dict_pairs [OF _ assms] by (simp add: container_func_def)
next
  assume "nodup_from [] (map fst kvs)"
  then show "dict_assign [] kvs = kvs"
    using dict_assign_nodup [of "[]" kvs] by simp
next
  assume t: "x = VStr t"
  with assms show c: "xs = chars_of t" by (simp add: py_iter_text)
  show "hint_error env x = None" and "room_error env x = None" and "members s x = None"
    unfolding t by (simp_all add: no_error_text members_text)
  show "list_all hashable xs" unfolding c by (rule hashable_chars)
  from set_items_plain [OF key_eq_chars, of t]
  show "set (set_items xs) = set xs" and "distinct (set_items xs)" unfolding c by simp_all
  show "container_func env Dict s x =
          (if t = [] then Inr (VRef (length (heap s)), s\<lparr>heap := heap s @ [ODict []]\<rparr>)
           else Inl ValueError)"
    unfolding t by (simp add: container_func_def py_dict_text)
next
  have v: "set_items (chars_of ''919293'') = [VStr ''9'', VStr ''1'', VStr ''2'', VStr ''3'']"
    by code_simp
  have c: "collect_members env s (VStr ''919293'') =
             Inr [VStr ''9'', VStr ''1'', VStr ''2'', VStr ''3'']"
    using hashable_chars [of "''919293''"] v
    by (simp add: collect_members_def members_text py_iter_text no_error_text)
  have "container_func env FrozenSet s (VStr ''919293'') =
             Inr (VFrozenSet (next_id s) [VStr ''9'', VStr ''1'', VStr ''2'', VStr ''3''],
                  s\<lparr>next_id := Suc (next_id s)\<rparr>)"
    using py_frozenset_members [OF c] by (simp add: container_func_def)
  moreover have "container_func env Set s (VStr ''919293'') =
             Inr (VRef (length (heap s)),
                  s\<lparr>heap := heap s @ [OSet [VStr ''9'', VStr ''1'', VStr ''2'', VStr ''3'']]\<rparr>)"
    using py_set_members [OF c] by (simp add: container_func_def)
  moreover have "set [VStr ''9'', VStr ''1'', VStr ''2'', VStr ''3'']
      = {VStr ''9'', VStr ''1'', VStr ''2'', VStr ''3''}" by simp
  moreover have "distinct [VStr ''9'', VStr ''1'', VStr ''2'', VStr ''3'']" by simp
  ultimately show "\<exists>zs. container_func env FrozenSet s (VStr ''919293'') =
             Inr (VFrozenSet (next_id s) zs, s\<lparr>next_id := Suc (next_id s)\<rparr>) \<and>
           container_func env Set s (VStr ''919293'') =
             Inr (VRef (length (heap s)), s\<lparr>heap := heap s @ [OSet zs]\<rparr>) \<and>
           set zs = {VStr ''9'', VStr ''1'', VStr ''2'', VStr ''3''} \<and> distinct zs"
    by blast
qed

text \<open>
  In the empty store of the example environment: from \<^verbatim>\<open>range(665, 668)\<close> the list field
  builds \<^verbatim>\<open>[665, 666, 667]\<close> and the set field a set of the same three numbers; from a
  frozenset with the members 3, 1 and 2, which it yields as 1, 2, 3, the set field
  builds a set with these members;
  and a tuple that holds a list is refused by the set field and by the frozenset field.
\<close>

theorem containers_built_from_iterables_witness:
  "py_iter example_env (mem empty_world) (VRange 665 668 1) = Inr [VInt 665, VInt 666, VInt 667] \<and>
   hint_error example_env (VRange 665 668 1) = None \<and>
   container_func example_env List (mem empty_world) (VRange 665 668 1) =
     Inr (VRef 0, \<lparr>heap = [OList [VInt 665, VInt 666, VInt 667]], next_id = 0\<rparr>) \<and>
   members (mem empty_world) (VRange 665 668 1) = None \<and>
   list_all hashable [VInt 665, VInt 666, VInt 667] \<and>
   room_error example_env (VRange 665 668 1) = None \<and>
   container_func example_env Set (mem empty_world) (VRange 665 668 1) =
     Inr (VRef 0, \<lparr>heap = [OSet [VInt 665, VInt 666, VInt 667]], next_id = 0\<rparr>) \<and>
   py_iter example_env (mem empty_world) (VFrozenSet 0 [VInt 3, VInt 1, VInt 2]) =
     Inr [VInt 1, VInt 2, VInt 3] \<and>
   members (mem empty_world) (VFrozenSet 0 [VInt 3, VInt 1, VInt 2]) =
     Some [VInt 3, VInt 1, VInt 2] \<and>
   container_func example_env Set (mem empty_world) (VFrozenSet 0 [VInt 3, VInt 1, VInt 2]) =
     Inr (VRef 0, \<lparr>heap = [OSet [VInt 3, VInt 1, VInt 2]], next_id = 0\<rparr>) \<and>
   py_iter example_env \<lparr>heap = [OList []], next_id = 1\<rparr> (VTuple 0 [VRef 0]) = Inr [VRef 0] \<and>
   members \<lparr>heap = [OList []], next_id = 1\<rparr> (VTuple 0 [VRef 0]) = None \<and>
   \<not> list_all hashable [VRef 0] \<and>
   container_func example_env Set \<lparr>heap = [OList []], next_id = 1\<rparr> (VTuple 0 [VRef 0]) =
     Inl TypeError \<and>
   container_func example_env FrozenSet \<lparr>heap = [OList []], next_id = 1\<rparr> (VTuple 0 [VRef 0]) =
     Inl TypeError"
proof -
  let ?s = "mem empty_world"
  let ?r = "VRange 665 668 1"
  let ?f = "VFrozenSet 0 [VInt 3, VInt 1, VInt 2]"
  let ?s1 = "\<lparr>heap = [OList []], next_id = 1\<rparr>"
  let ?t = "VTuple 0 [VRef 0]"
  have i: "py_iter example_env ?s ?r = Inr [VInt 665, VInt 666, VInt 667]" by code_simp
  have e: "hint_error example_env ?r = None" "room_error example_env ?r = None"
    "members ?s ?r = None"
    by code_simp+
  have h: "list_all hashable [VInt 665, VInt 666, VInt 667]" by simp
  have v: "set_items [VInt 665, VInt 666, VInt 667] = [VInt 665, VInt 666, VInt 667]"
    by code_simp
  from containers_built_from_iterables [OF i, of "[]" "[]" "[]"] e h
  have "container_func example_env List ?s ?r =
      Inr (VRef (length (heap ?s)), ?s\<lparr>heap := heap ?s @ [OList [VInt 665, VInt 666, VInt 667]]\<rparr>)"
    and "container_func example_env Set ?s ?r =
      Inr (VRef (length (heap ?s)),
           ?s\<lparr>heap := heap ?s @ [OSet (set_items [VInt 665, VInt 666, VInt 667])]\<rparr>)"
    by blast+
  then have first:
    "container_func example_env List ?s ?r =
       Inr (VRef 0, \<lparr>heap = [OList [VInt 665, VInt 666, VInt 667]], next_id = 0\<rparr>)"
    "container_func example_env Set ?s ?r =
       Inr (VRef 0, \<lparr>heap = [OSet [VInt 665, VInt 666, VInt 667]], next_id = 0\<rparr>)"
    using v by (simp_all add: empty_world_def)
  have j: "py_iter example_env ?s ?f = Inr [VInt 1, VInt 2, VInt 3]" by code_simp
  have m: "members ?s ?f = Some [VInt 3, VInt 1, VInt 2]" by (simp add: members_def)
  from containers_built_from_iterables [OF j, of "[VInt 3, VInt 1, VInt 2]" "[]" "[]"] m
  have "container_func example_env Set ?s ?f =
      Inr (VRef (length (heap ?s)), ?s\<lparr>heap := heap ?s @ [OSet [VInt 3, VInt 1, VInt 2]]\<rparr>)"
    by blast
  then have second:
    "container_func example_env Set ?s ?f =
       Inr (VRef 0, \<lparr>heap = [OSet [VInt 3, VInt 1, VInt 2]], next_id = 0\<rparr>)"
    by (simp add: empty_world_def)
  have k: "py_iter example_env ?s1 ?t = Inr [VRef 0]" by (simp add: py_iter_def)
  have n: "members ?s1 ?t = None" "\<not> list_all hashable [VRef 0]" by (simp_all add: members_def)
  from containers_built_from_iterables [OF k, of "[]" "[]" "[]"] n
  have third: "container_func example_env Set ?s1 ?t = Inl TypeError"
    "container_func example_env FrozenSet ?s1 ?t = Inl TypeError"
    by blast+
  from i e h first j m second k n third show ?thesis by simp
qed

subsection \<open>C9: coercion is stable under repetition\<close>

text \<open>
  C9, as the claim states it, fails for the float field on a NaN, and likewise for the
  decimal field: \<^verbatim>\<open>float\<close> returns a NaN unchanged, so \<^verbatim>\<open>coerce(coerce(x))\<close> and
  \<^verbatim>\<open>coerce(x)\<close> are both that NaN, and \<^verbatim>\<open>==\<close> does not hold between a NaN and itself.
\<close>

theorem float_nan_not_equal_to_itself:
  "simple_func example_env Float (mem empty_world) (VFloat (NaN 0)) =
     Inr (VFloat (NaN 0), mem empty_world) \<and>
   \<not> atom_eq (VFloat (NaN 0)) (VFloat (NaN 0)) \<and>
   simple_func example_env Decimal (mem empty_world) (VDecimal (DNaN 0)) =
     Inr (VDecimal (DNaN 0), mem empty_world) \<and>
   \<not> atom_eq (VDecimal (DNaN 0)) (VDecimal (DNaN 0))"
  by (simp add: simple_func_def py_float_def py_decimal_def atom_eq_def as_rat_def
      as_infinity_def)

text \<open>
  C9, amended. For every built-in coercion and every input \<open>x\<close> it accepts, with \<open>y\<close> the
  value it returns: applied to \<open>y\<close> the coercion succeeds again, and
  \<^item> for the scalar kinds (\<^verbatim>\<open>SimpleField\<close>, \<^verbatim>\<open>Integer\<close>, \<^verbatim>\<open>Float\<close>, \<^verbatim>\<open>Decimal\<close>, \<^verbatim>\<open>Boolean\<close>,
    \<^verbatim>\<open>Bytes\<close>, \<^verbatim>\<open>Binary\<close>, \<^verbatim>\<open>String\<close>) it returns \<open>y\<close> itself and leaves the store
    unchanged; for the kinds with a coercion of their own \<open>y == y\<close> holds unless \<open>y\<close> is
    a NaN, be it a float NaN or a decimal NaN, quiet or signaling;
  \<^item> for the list, set and dict kinds it returns a new container, not the object \<open>y\<close>,
    with the same contents as \<open>y\<close>, and \<open>y\<close> keeps its contents;
  \<^item> for the tuple and frozenset kinds it returns \<open>y\<close>, the same object, and leaves the
    store unchanged.
\<close>

theorem coercion_idempotent:
  "(simple_func env k s x = Inr (y, s1) \<longrightarrow>
      simple_func env k s2 y = Inr (y, s2) \<and>
      (k \<noteq> SimpleField \<and> \<not> is_nan y \<longrightarrow> atom_eq y y)) \<and>
   (String_func env codec s x = Inr (y, s1) \<longrightarrow>
      String_func env codec s2 y = Inr (y, s2) \<and> atom_eq y y) \<and>
   (container_func env c s x = Inr (y, s1) \<longrightarrow>
      (\<exists>z s3. container_func env c s1 y = Inr (z, s3) \<and> contents s1 y \<noteq> None \<and>
              contents s3 z = contents s1 y \<and> contents s3 y = contents s1 y \<and>
              (mutable_kind c \<longrightarrow> \<not> same_object z y) \<and>
              (\<not> mutable_kind c \<longrightarrow> z = y \<and> s3 = s1 \<and> same_object z y)))"
proof (intro conjI impI)
  assume a: "simple_func env k s x = Inr (y, s1)"
  then show "simple_func env k s2 y = Inr (y, s2)" by (rule simple_func_again)
  assume "k \<noteq> SimpleField \<and> \<not> is_nan y"
  with simple_func_shape [OF a] show "atom_eq y y"
    by (auto intro: atom_eq_refl_plain atom_eq_refl_float atom_eq_refl_decimal)
next
  assume "String_func env codec s x = Inr (y, s1)"
  from String_func_shape [OF this] obtain t where "y = VStr t" by blast
  then show "String_func env codec s2 y = Inr (y, s2)" and "atom_eq y y"
    by (simp_all add: String_func_def atom_eq_refl_plain)
next
  assume a: "container_func env c s x = Inr (y, s1)"
  show "\<exists>z s3. container_func env c s1 y = Inr (z, s3) \<and> contents s1 y \<noteq> None \<and>
              contents s3 z = contents s1 y \<and> contents s3 y = contents s1 y \<and>
              (mutable_kind c \<longrightarrow> \<not> same_object z y) \<and>
              (\<not> mutable_kind c \<longrightarrow> z = y \<and> s3 = s1 \<and> same_object z y)"
  proof (cases "mutable_kind c")
    case True
    from mutable_built [OF True a] obtain ob where
      ob: "built_by c ob" "y = VRef (length (heap s))" "s1 = s\<lparr>heap := heap s @ [ob]\<rparr>"
      by blast
    have l: "lookup s1 (length (heap s)) = Some ob"
      unfolding ob(3) by (rule lookup_append_new)
    define s3 where "s3 = s1\<lparr>heap := heap s1 @ [ob]\<rparr>"
    have "container_func env c s1 y = Inr (VRef (length (heap s1)), s3)"
      unfolding ob(2) s3_def by (rule mutable_copy [OF True ob(1) l])
    moreover have "contents s1 y = Some ob" using l by (simp add: ob(2) contents_def)
    moreover have "contents s3 (VRef (length (heap s1))) = Some ob"
      unfolding s3_def by (simp add: contents_def lookup_append_new)
    moreover have "contents s3 y = Some ob"
      by (simp add: ob(2,3) s3_def contents_def lookup_def nth_append)
    moreover have "\<not> same_object (VRef (length (heap s1))) y"
      by (simp add: ob(2,3) same_object_def obj_id_def)
    ultimately show ?thesis using True by auto
  next
    case False
    from immutable_same [OF False a] have "container_func env c s1 y = Inr (y, s1)" .
    moreover from immutable_result [OF False a] have "contents s1 y \<noteq> None" "same_object y y"
      by (auto simp: contents_def same_object_def obj_id_def)
    ultimately show ?thesis using False by blast
  qed
qed

text \<open>
  \<^verbatim>\<open>int(int('12'))\<close> is \<^verbatim>\<open>int('12')\<close>; \<^verbatim>\<open>list(list(range(665, 668)))\<close> has the contents
  of \<^verbatim>\<open>list(range(665, 668))\<close> and is another object; \<^verbatim>\<open>tuple(tuple(range(665, 668)))\<close>
  is the object \<^verbatim>\<open>tuple(range(665, 668))\<close>.
\<close>

theorem coercion_idempotent_witness:
  "simple_func example_env Integer (mem empty_world) (VStr ''12'') = Inr (VInt 12, mem empty_world) \<and>
   Integer \<noteq> SimpleField \<and> \<not> is_nan (VInt 12) \<and>
   simple_func example_env Integer (mem empty_world) (VInt 12) = Inr (VInt 12, mem empty_world) \<and>
   atom_eq (VInt 12) (VInt 12) \<and>
   container_func example_env List (mem empty_world) (VRange 665 668 1) =
     Inr (VRef 0, \<lparr>heap = [OList [VInt 665, VInt 666, VInt 667]], next_id = 0\<rparr>) \<and>
   mutable_kind List \<and>
   (\<exists>z s3. container_func example_env List
            \<lparr>heap = [OList [VInt 665, VInt 666, VInt 667]], next_id = 0\<rparr> (VRef 0)
            = Inr (z, s3) \<and>
          contents s3 z = Some (OList [VInt 665, VInt 666, VInt 667]) \<and>
          \<not> same_object z (VRef 0)) \<and>
   container_func example_env Tuple (mem empty_world) (VRange 665 668 1) =
     Inr (VTuple 0 [VInt 665, VInt 666, VInt 667], \<lparr>heap = [], next_id = 1\<rparr>) \<and>
   \<not> mutable_kind Tuple \<and>
   container_func example_env Tuple \<lparr>heap = [], next_id = 1\<rparr>
       (VTuple 0 [VInt 665, VInt 666, VInt 667]) =
     Inr (VTuple 0 [VInt 665, VInt 666, VInt 667], \<lparr>heap = [], next_id = 1\<rparr>)"
proof -
  let ?s = "mem empty_world"
  let ?l = "[VInt 665, VInt 666, VInt 667]"
  let ?s1 = "\<lparr>heap = [OList ?l], next_id = 0\<rparr>"
  let ?s2 = "\<lparr>heap = [], next_id = 1\<rparr>"
  have a: "simple_func example_env Integer ?s (VStr ''12'') = Inr (VInt 12, ?s)"
    by code_simp
  have b: "container_func example_env List ?s (VRange 665 668 1) = Inr (VRef 0, ?s1)"
    by code_simp
  have b': "container_func example_env Tuple ?s (VRange 665 668 1) = Inr (VTuple 0 ?l, ?s2)"
    by code_simp
  have c: "contents ?s1 (VRef 0) = Some (OList ?l)"
    by code_simp
  have n: "Integer \<noteq> SimpleField \<and> \<not> is_nan (VInt 12)" by (simp add: is_nan_def)
  have m: "mutable_kind List" "\<not> mutable_kind Tuple" by (simp_all add: mutable_kind_def)
  from coercion_idempotent [of example_env Integer ?s "VStr ''12''" "VInt 12" ?s ?s
      "''ascii''" List] a n
  have d: "simple_func example_env Integer ?s (VInt 12) = Inr (VInt 12, ?s)"
    and e: "atom_eq (VInt 12) (VInt 12)"
    by blast+
  from coercion_idempotent [of example_env Integer ?s "VRange 665 668 1" "VRef 0" ?s1 ?s
      "''ascii''" List] b m(1)
  obtain z s3 where
    "container_func example_env List ?s1 (VRef 0) = Inr (z, s3)"
    "contents s3 z = contents ?s1 (VRef 0)" "\<not> same_object z (VRef 0)"
    by blast
  with c have f: "\<exists>z s3. container_func example_env List ?s1 (VRef 0) = Inr (z, s3) \<and>
          contents s3 z = Some (OList ?l) \<and> \<not> same_object z (VRef 0)"
    by auto
  from coercion_idempotent [of example_env Integer ?s "VRange 665 668 1" "VTuple 0 ?l" ?s2 ?s
      "''ascii''" Tuple] b' m(2)
  obtain z s3 where
    "container_func example_env Tuple ?s2 (VTuple 0 ?l) = Inr (z, s3)"
    "z = VTuple 0 ?l" "s3 = ?s2"
    by blast
  then have g: "container_func example_env Tuple ?s2 (VTuple 0 ?l) = Inr (VTuple 0 ?l, ?s2)"
    by simp
  from a n d e b m f b' g show ?thesis by blast
qed

subsection \<open>C10: no default, no coercion\<close>

text \<open>
  C10. A field constructed without a default (the argument is the sentinel) is returned
  with the world exactly as it was, so the coercion function has not been called: the
  call log is unchanged. Its \<^verbatim>\<open>default\<close> attribute, or \<^verbatim>\<open>_default\<close> for a container
  field, is the sentinel, and reading \<^verbatim>\<open>default\<close> yields the sentinel in any world \<open>w'\<close>
  and leaves that world unchanged: a container field does not compute
  \<^verbatim>\<open>func(NoDefault)\<close>.
\<close>

theorem no_default_keeps_sentinel:
  "(\<exists>fld. Field_new f VNoDefault w = Inr (fld, w) \<and> default_val fld = VNoDefault \<and>
          get_default fld w' = Inr (VNoDefault, w')) \<and>
   (\<exists>fld. SimpleField_init env k VNoDefault w = Inr (fld, w) \<and> default_val fld = VNoDefault \<and>
          get_default fld w' = Inr (VNoDefault, w')) \<and>
   (\<exists>fld. String_init env VNoDefault enc_arg w = Inr (fld, w) \<and> default_val fld = VNoDefault \<and>
          get_default fld w' = Inr (VNoDefault, w')) \<and>
   (\<exists>fld. StandartContainer_init env c VNoDefault w = Inr (fld, w) \<and>
          underscore_default fld = VNoDefault \<and> get_default fld w' = Inr (VNoDefault, w'))"
  by (simp add: Field_new_def SimpleField_init_def String_init_def StandartContainer_init_def
      Field_init_no_default new_object_def get_default_def Let_def)

theorem no_default_keeps_sentinel_witness:
  "\<exists>fld. StandartContainer_init example_env List VNoDefault empty_world = Inr (fld, empty_world) \<and>
         underscore_default fld = VNoDefault \<and>
         get_default fld empty_world = Inr (VNoDefault, empty_world)"
  using no_default_keeps_sentinel [of py_bool empty_world empty_world example_env Integer None List]
  by simp

end
